theory Spec2Isabelle
  imports Complex_Main
begin

section \<open>Values shared by the services\<close>

text \<open>
  The services are written against SQLAlchemy models. A table is modelled as the list of
  its rows, a query as a filter over that list, and a service method as a function from
  the database (and its arguments) to a result and the database afterwards.

  UUIDs are natural numbers. A \<open>datetime.time\<close> is the number of microseconds since
  midnight, a \<open>datetime.date\<close> its ordinal, and a \<open>datetime.datetime\<close>, which is
  timezone-aware as \<open>datetime.now(timezone.utc)\<close> and the \<open>DateTime(timezone=True)\<close>
  columns give it, the number of microseconds since the epoch: all three are compared as
  the numbers are.
\<close>

type_synonym uuid = nat
type_synonym pytime = nat
type_synonym pydate = nat
type_synonym pydatetime = int

text \<open>
  The enums of \<open>models/enums.py\<close> that the services use.
\<close>

datatype UserRole = SUPER_ADMIN | ADMIN | MANAGER | TEAM_LEAD | EMPLOYEE

datatype CellType =
  DESK | PARKING_SLOT | CAFETERIA_TABLE | PATH | WALL | WINDOW | ENTRY | EXIT | EMPTY

datatype ParkingType = PT_EMPLOYEE | PT_VISITOR

datatype BookingStatus = PENDING | CONFIRMED | CANCELLED | COMPLETED

text \<open>
  Modelled from the spec: the enums \<open>FloorPlanType\<close> and \<open>ManagerType\<close>, which
  \<open>floor_plan_service.py\<close> and \<open>parking_service.py\<close> import from a module that is not among
  the sources. The plan types are the three of the specification (desk area, cafeteria,
  parking); the manager types are its three domain managers (desk-conference, cafeteria,
  parking) and the two further values that \<open>test_all.py\<close> sends as \<open>manager_type\<close>
  (\<open>it_support\<close>, \<open>attendance\<close>).
\<close>

datatype ManagerType =
  MT_PARKING | MT_ATTENDANCE | MT_DESK_CONFERENCE | MT_CAFETERIA | MT_IT_SUPPORT

datatype FloorPlanType = DESK_AREA | CAFETERIA | PARKING

text \<open>\<open>CellType.X.value\<close>: the string stored in the grid.\<close>

fun cell_type_value :: "CellType \<Rightarrow> string" where
  "cell_type_value DESK = ''desk''"
| "cell_type_value PARKING_SLOT = ''parking_slot''"
| "cell_type_value CAFETERIA_TABLE = ''cafeteria_table''"
| "cell_type_value PATH = ''path''"
| "cell_type_value WALL = ''wall''"
| "cell_type_value WINDOW = ''window''"
| "cell_type_value ENTRY = ''entry''"
| "cell_type_value EXIT = ''exit''"
| "cell_type_value EMPTY = ''empty''"

text \<open>
  The grid is a JSON column and a grid cell a JSON object (a Python \<open>dict\<close>), whose values
  are whatever JSON holds: null, booleans, integers, floats, strings, arrays and objects.
  A float is the rational number it stands for, one of the two infinities, or not a
  number.
\<close>

datatype pyfloat = Finite rat | PosInf | NegInf | NaN

datatype json =
    JNull
  | JBool bool
  | JInt int
  | JFloat pyfloat
  | JStr string
  | JArr "json list"
  | JObj "(string \<times> json) list"

type_synonym cell = "(string \<times> json) list"
type_synonym grid = "cell list list"

text \<open>\<open>cell.get(k)\<close> and \<open>cell.get(k, d)\<close>: a missing key gives \<open>None\<close>, or the default.\<close>

definition py_get :: "cell \<Rightarrow> string \<Rightarrow> json" where
  "py_get c k = (case map_of c k of None \<Rightarrow> JNull | Some v \<Rightarrow> v)"

definition py_get_default :: "cell \<Rightarrow> string \<Rightarrow> json \<Rightarrow> json" where
  "py_get_default c k d = (case map_of c k of None \<Rightarrow> d | Some v \<Rightarrow> v)"

text \<open>
  Python truthiness of such a value (\<open>if x\<close>, \<open>not x\<close>): false are \<open>None\<close>, \<open>False\<close>, zero,
  and the empty string, list and dict.
\<close>

fun truthy :: "json \<Rightarrow> bool" where
  "truthy JNull = False"
| "truthy (JBool b) = b"
| "truthy (JInt n) = (n \<noteq> 0)"
| "truthy (JFloat f) = (f \<noteq> Finite 0)"
| "truthy (JStr s) = (s \<noteq> [])"
| "truthy (JArr xs) = (xs \<noteq> [])"
| "truthy (JObj kvs) = (kvs \<noteq> [])"

text \<open>
  \<open>x in xs\<close> and \<open>x == s\<close> for a list of strings and a string: the comparison is \<open>==\<close>, and
  only a string can be equal to one.
\<close>

fun json_in :: "json \<Rightarrow> string list \<Rightarrow> bool" where
  "json_in (JStr s) xs = (s \<in> set xs)"
| "json_in _ xs = False"

fun json_eq_str :: "json \<Rightarrow> string \<Rightarrow> bool" where
  "json_eq_str (JStr s) t = (s = t)"
| "json_eq_str _ t = False"

text \<open>
  What a service method can end with, besides its value: one of the error messages it
  returns as the second component of its result tuple, or an exception that it lets
  escape.
\<close>

datatype exn = MultipleResultsFound | ValueError | IndexError | TypeError | AttributeError

datatype error =
    GridRowCount int
      \<comment> \<open>\<open>Grid must have exactly {rows} rows\<close>\<close>
  | RowColumnCount nat int
      \<comment> \<open>\<open>Row {row_idx} must have exactly {columns} columns\<close>\<close>
  | MissingCellType nat nat
      \<comment> \<open>\<open>Cell at ({row_idx}, {col_idx}) missing cell_type\<close>\<close>
  | InvalidCellType json FloorPlanType nat nat
      \<comment> \<open>\<open>Invalid cell_type '{cell_type}' for {plan_type} plan at ({row_idx}, {col_idx})\<close>\<close>
  | FloorPlanNotFound
      \<comment> \<open>\<open>Floor plan not found\<close>\<close>
  | NoPermissionCreate FloorPlanType
      \<comment> \<open>\<open>You don't have permission to create {plan_type} floor plans\<close>\<close>
  | NoPermissionModify FloorPlanType
      \<comment> \<open>\<open>You don't have permission to modify {plan_type} floor plans\<close>\<close>
  | DuplicateFloorPlanName FloorPlanType
      \<comment> \<open>\<open>A {plan_type} floor plan with this name already exists\<close>\<close>
  | CellOutOfBounds
      \<comment> \<open>\<open>Cell coordinates out of bounds\<close>\<close>
  | CellNotDesk
      \<comment> \<open>\<open>Cell is not a desk\<close>\<close>
  | DeskNotActive
      \<comment> \<open>\<open>Desk is not active\<close>\<close>
  | BookingNotFound
      \<comment> \<open>\<open>Booking not found\<close>\<close>
  | CannotModifyOthersBooking
      \<comment> \<open>\<open>Cannot modify another user's booking\<close>\<close>
  | CannotCancelOthersBooking
      \<comment> \<open>\<open>Cannot cancel another user's booking\<close>\<close>
  | UserHasActiveParking
      \<comment> \<open>\<open>User already has an active parking allocation\<close>\<close>
  | OnlyAdminAssignVisitor
      \<comment> \<open>\<open>Only Security Admin can assign visitor parking\<close>\<close>
  | VisitorNameRequired
      \<comment> \<open>\<open>Visitor name is required (minimum 2 characters)\<close>\<close>
  | InvalidPhone
      \<comment> \<open>\<open>Invalid phone number format\<close>\<close>
  | NoParkingFloorPlans
      \<comment> \<open>\<open>No parking floor plans available\<close>\<close>
  | AllocationNotFound
      \<comment> \<open>\<open>Allocation not found\<close>\<close>
  | EntryAlreadyRecorded
      \<comment> \<open>\<open>Entry already recorded\<close>\<close>
  | OnlyAdminVisitorExit
      \<comment> \<open>\<open>Only Security Admin can record visitor exits\<close>\<close>
  | NoEntryRecorded
      \<comment> \<open>\<open>No entry recorded\<close>\<close>
  | ExitAlreadyRecorded
      \<comment> \<open>\<open>Exit already recorded\<close>\<close>
  | Raised exn
      \<comment> \<open>an exception leaves the method\<close>

text \<open>
  \<open>Result.scalar_one_or_none()\<close>: \<open>None\<close> for no row, the row when there is exactly
  one, and \<open>MultipleResultsFound\<close> raised when the query has more than one row.
\<close>

fun scalar_one_or_none :: "'a list \<Rightarrow> error + 'a option" where
  "scalar_one_or_none [] = Inr None"
| "scalar_one_or_none [x] = Inr (Some x)"
| "scalar_one_or_none (x # y # zs) = Inl (Raised MultipleResultsFound)"

text \<open>
  Python list indexing \<open>xs[i]\<close>: a negative index counts from the end, and an index outside
  the list raises \<open>IndexError\<close>.
\<close>

definition py_index :: "'a list \<Rightarrow> int \<Rightarrow> error + 'a" where
  "py_index xs i =
     (if 0 \<le> i \<and> i < int (length xs) then Inr (xs ! nat i)
      else if i < 0 \<and> - i \<le> int (length xs) then Inr (xs ! nat (int (length xs) + i))
      else Inl (Raised IndexError))"

text \<open>
  A character is a code point below 256. \<open>str.strip\<close> and the class \<open>\s\<close> of \<open>re\<close> take as
  white space the code points 9 to 13, 28 to 32, 133 and 160. \<open>int(s)\<close> skips less at the
  two ends of the string: 9 to 13 and 32, and 133 and 160, which it turns into blanks
  beforehand, but not 28 to 31. It then reads an optional sign and decimal digits, which
  single underscores may separate, and raises \<open>ValueError\<close> on anything else. (The cap that
  recent Python versions put on the number of digits is left out.)
\<close>

definition is_digit :: "char \<Rightarrow> bool" where
  "is_digit c = (48 \<le> (of_char c :: nat) \<and> (of_char c :: nat) \<le> 57)"

definition is_space :: "char \<Rightarrow> bool" where
  "is_space c =
     (let n = (of_char c :: nat)
      in (9 \<le> n \<and> n \<le> 13) \<or> (28 \<le> n \<and> n \<le> 32) \<or> n = 133 \<or> n = 160)"

definition int_space :: "char \<Rightarrow> bool" where
  "int_space c =
     (let n = (of_char c :: nat) in (9 \<le> n \<and> n \<le> 13) \<or> n = 32 \<or> n = 133 \<or> n = 160)"

definition digit_val :: "char \<Rightarrow> nat" where
  "digit_val c = (of_char c :: nat) - 48"

definition py_strip :: "string \<Rightarrow> string" where
  "py_strip s = rev (dropWhile is_space (rev (dropWhile is_space s)))"

definition digits_value :: "string \<Rightarrow> nat" where
  "digits_value s = foldl (\<lambda>acc c. 10 * acc + digit_val c) 0 s"

fun int_body_ok :: "string \<Rightarrow> bool" where
  "int_body_ok [] = False"
| "int_body_ok [c] = is_digit c"
| "int_body_ok (c # d # r) =
     (is_digit c \<and> (if d = CHR ''_'' then int_body_ok r else int_body_ok (d # r)))"

definition py_int :: "string \<Rightarrow> error + int" where
  "py_int s =
     (let t = rev (dropWhile int_space (rev (dropWhile int_space s)));
          negative = (t \<noteq> [] \<and> hd t = CHR ''-'');
          body = (if t \<noteq> [] \<and> (hd t = CHR ''-'' \<or> hd t = CHR ''+'') then tl t else t)
      in if int_body_ok body
         then Inr ((if negative then - 1 else 1) * int (digits_value (filter is_digit body)))
         else Inl (Raised ValueError))"

section \<open>Models\<close>

text \<open>
  Modelled from the spec: the class \<open>User\<close>, whose module is not among the sources of the
  services. Its attributes are the three that the services read: \<open>id\<close>, \<open>role\<close> and
  \<open>manager_type\<close>, the manager domain of the specification, which only a manager has.
\<close>

record User =
  user_id :: uuid
  user_role :: UserRole
  user_manager_type :: "ManagerType option"

text \<open>
  The classes of \<open>app/models/floor_plan.py\<close>, \<open>app/models/desk.py\<close> and
  \<open>app/models/parking.py\<close>, which \<open>floor_plan_service.py\<close>, \<open>desk_service.py\<close> and
  \<open>parking_service.py\<close> import. A column that may be null is an option. The time stamps of
  the mixin and the vehicle type of an allocation, which no method below reads, are left
  out.
\<close>

record FloorPlan =
  fp_id :: uuid
  fp_floor_code :: string
  fp_name :: string
  fp_plan_type :: FloorPlanType
  fp_rows :: int
  fp_columns :: int
  fp_is_active :: "bool option"
  fp_description :: "string option"
  fp_current_version :: "int option"
  fp_created_by_code :: string
  fp_building_name :: "string option"
  fp_floor_number :: "string option"

record FloorPlanVersion =
  fpv_id :: uuid
  fpv_floor_plan_id :: uuid
  fpv_version :: int
  fpv_grid_data :: grid
  fpv_is_active :: "bool option"
  fpv_created_by_code :: string
  fpv_change_notes :: "string option"

record DeskBooking =
  dbk_id :: uuid
  dbk_desk_id :: uuid
  dbk_user_code :: string
  dbk_booking_date :: pydate
  dbk_start_time :: pytime
  dbk_end_time :: pytime
  dbk_status :: "BookingStatus option"
  dbk_checked_in_at :: "pydatetime option"
  dbk_checked_out_at :: "pydatetime option"
  dbk_notes :: "string option"
  dbk_cancellation_reason :: "string option"
  dbk_cancelled_at :: "pydatetime option"

text \<open>
  \<open>entry_time\<close> is declared \<open>NOT NULL\<close>; it is an option here because \<open>record_entry\<close> and
  \<open>record_exit\<close> ask whether it is set.
\<close>

record ParkingAllocation =
  pa_id :: uuid
  pa_slot_id :: uuid
  pa_user_code :: "string option"
  pa_parking_type :: ParkingType
  pa_visitor_name :: "string option"
  pa_visitor_phone :: "string option"
  pa_visitor_company :: "string option"
  pa_vehicle_number :: string
  pa_entry_time :: "pydatetime option"
  pa_expected_exit_time :: "pydatetime option"
  pa_exit_time :: "pydatetime option"
  pa_is_active :: "bool option"
  pa_notes :: "string option"

record ParkingHistory =
  ph_allocation_id :: uuid
  ph_slot_id :: uuid
  ph_slot_code :: string
  ph_parking_type :: ParkingType
  ph_user_code :: "string option"
  ph_visitor_name :: "string option"
  ph_vehicle_number :: string
  ph_entry_time :: pydatetime
  ph_exit_time :: pydatetime
  ph_duration_minutes :: "int option"

text \<open>
  The class \<open>CafeteriaTableBooking\<close> that \<open>cafeteria_service.py\<close> imports, from the models
  beside it.
\<close>

record CafeteriaTableBooking =
  cbk_id :: uuid
  cbk_floor_plan_id :: uuid
  cbk_table_label :: string
  cbk_cell_row :: string
  cbk_cell_column :: string
  cbk_user_id :: uuid
  cbk_booking_date :: pydate
  cbk_start_time :: pytime
  cbk_end_time :: pytime
  cbk_guest_count :: "string option"
  cbk_status :: "BookingStatus option"
  cbk_notes :: "string option"

text \<open>
  The request schemas of \<open>app/schemas/floor_plan.py\<close>, \<open>app/schemas/desk.py\<close> and
  \<open>app/schemas/parking.py\<close> (the vehicle type and the allocation date, which are not
  read, are left out).
\<close>

record FloorPlanCreate =
  fpc_name :: string
  fpc_plan_type :: FloorPlanType
  fpc_rows :: int
  fpc_columns :: int
  fpc_description :: "string option"
  fpc_building_name :: "string option"
  fpc_floor_number :: "string option"
  fpc_grid_data :: grid

record FloorPlanVersionCreate =
  fvc_grid_data :: grid
  fvc_change_notes :: "string option"

record DeskBookingUpdate =
  dbu_start_time :: "pytime option"
  dbu_end_time :: "pytime option"
  dbu_notes :: "string option"

record ParkingAllocationCreate =
  pac_vehicle_number :: string
  pac_notes :: "string option"
  pac_slot_id :: uuid

record VisitorParkingCreate =
  vpc_visitor_name :: string
  vpc_visitor_phone :: "string option"
  vpc_visitor_company :: "string option"
  vpc_vehicle_number :: "string option"
  vpc_notes :: "string option"
  vpc_host_user_code :: "string option"
  vpc_slot_id :: "uuid option"

text \<open>The database: one list of rows for each table the services touch.\<close>

record database =
  floor_plans :: "FloorPlan list"
  floor_plan_versions :: "FloorPlanVersion list"
  desk_bookings :: "DeskBooking list"
  cafeteria_table_bookings :: "CafeteriaTableBooking list"
  parking_allocations :: "ParkingAllocation list"
  parking_history :: "ParkingHistory list"

text \<open>
  The services were written for earlier model classes and name attributes that the classes
  above do not have. Reading an attribute that a mapped class, one of its rows or a
  request schema does not have raises \<open>AttributeError\<close>, and a constructor of a mapped
  class raises \<open>TypeError\<close> on a keyword that is not one of its attributes. A method ends
  there: nothing after that point is run, and nothing that it changed on a loaded row
  before is committed.
\<close>

section \<open>FloorPlanService\<close>

text \<open>\<open>PLAN_TYPE_TO_MANAGER_TYPE.get(plan_type)\<close>.\<close>

fun PLAN_TYPE_TO_MANAGER_TYPE :: "FloorPlanType \<Rightarrow> ManagerType option" where
  "PLAN_TYPE_TO_MANAGER_TYPE DESK_AREA = Some MT_DESK_CONFERENCE"
| "PLAN_TYPE_TO_MANAGER_TYPE CAFETERIA = Some MT_CAFETERIA"
| "PLAN_TYPE_TO_MANAGER_TYPE PARKING = Some MT_PARKING"

text \<open>\<open>VALID_CELL_TYPES.get(plan_type, [])\<close>.\<close>

fun VALID_CELL_TYPES :: "FloorPlanType \<Rightarrow> CellType list" where
  "VALID_CELL_TYPES DESK_AREA = [DESK, PATH, WALL, ENTRY, EXIT, EMPTY]"
| "VALID_CELL_TYPES CAFETERIA = [CAFETERIA_TABLE, PATH, WALL, ENTRY, EXIT, EMPTY]"
| "VALID_CELL_TYPES PARKING = [PARKING_SLOT, PATH, WALL, ENTRY, EXIT, EMPTY]"

text \<open>
  \<open>can_manage_plan_type\<close>. The members of \<open>ManagerType\<close> are non-empty strings, so
  \<open>not user.manager_type\<close> holds exactly when the attribute is \<open>None\<close>.
\<close>

definition can_manage_plan_type :: "User \<Rightarrow> FloorPlanType \<Rightarrow> bool" where
  "can_manage_plan_type user plan_type =
     (if user_role user = SUPER_ADMIN then True
      else if user_role user = ADMIN then True
      else if user_role user \<noteq> MANAGER \<or> user_manager_type user = None then False
      else user_manager_type user = PLAN_TYPE_TO_MANAGER_TYPE plan_type)"

text \<open>
  \<open>validate_grid_data\<close>: the inner loop over the cells of one row, the outer loop over the
  rows, and the method. \<open>None\<close> from a loop means that it ran to its end.
\<close>

fun validate_cells :: "string list \<Rightarrow> FloorPlanType \<Rightarrow> nat \<Rightarrow> nat \<Rightarrow> cell list \<Rightarrow> error option" where
  "validate_cells valid_type_values plan_type row_idx col_idx [] = None"
| "validate_cells valid_type_values plan_type row_idx col_idx (c # cs) =
     (let cell_type = py_get c ''cell_type'' in
      if \<not> truthy cell_type then Some (MissingCellType row_idx col_idx)
      else if \<not> json_in cell_type valid_type_values
        then Some (InvalidCellType cell_type plan_type row_idx col_idx)
      else validate_cells valid_type_values plan_type row_idx (Suc col_idx) cs)"

fun validate_rows :: "string list \<Rightarrow> FloorPlanType \<Rightarrow> int \<Rightarrow> nat \<Rightarrow> grid \<Rightarrow> error option" where
  "validate_rows valid_type_values plan_type columns row_idx [] = None"
| "validate_rows valid_type_values plan_type columns row_idx (row # rest) =
     (if int (length row) \<noteq> columns then Some (RowColumnCount row_idx columns)
      else case validate_cells valid_type_values plan_type row_idx 0 row of
          Some e \<Rightarrow> Some e
        | None \<Rightarrow> validate_rows valid_type_values plan_type columns (Suc row_idx) rest)"

definition validate_grid_data :: "grid \<Rightarrow> int \<Rightarrow> int \<Rightarrow> FloorPlanType \<Rightarrow> error + unit" where
  "validate_grid_data grid_data rows columns plan_type =
     (if int (length grid_data) \<noteq> rows then Inl (GridRowCount rows)
      else
        let valid_types = VALID_CELL_TYPES plan_type;
            valid_type_values = map cell_type_value valid_types
        in case validate_rows valid_type_values plan_type columns 0 grid_data of
             Some e \<Rightarrow> Inl e
           | None \<Rightarrow> Inr ())"

text \<open>\<open>get_floor_plan_by_id\<close>: \<open>select(FloorPlan).where(FloorPlan.id == floor_plan_id)\<close>.\<close>

definition get_floor_plan_by_id :: "database \<Rightarrow> uuid \<Rightarrow> error + FloorPlan option" where
  "get_floor_plan_by_id db floor_plan_id =
     scalar_one_or_none (filter (\<lambda>fp. fp_id fp = floor_plan_id) (floor_plans db))"

text \<open>
  \<open>order_by(FloorPlanVersion.version.desc()).limit(1)\<close>: the row with the greatest
  version among the given ones, as a list of at most one row. (The unique index on
  \<open>(floor_plan_id, version)\<close> keeps two versions of one floor plan from carrying the same
  number; of two such rows the function takes the earlier one of the table.)
\<close>

fun order_by_version_desc_limit_1 :: "FloorPlanVersion list \<Rightarrow> FloorPlanVersion list" where
  "order_by_version_desc_limit_1 [] = []"
| "order_by_version_desc_limit_1 (v # vs) =
     (case order_by_version_desc_limit_1 vs of
        [] \<Rightarrow> [v]
      | w # _ \<Rightarrow> if fpv_version v < fpv_version w then [w] else [v])"

text \<open>\<open>get_latest_version\<close>; the desk and parking services run the same query inline.\<close>

definition get_latest_version :: "database \<Rightarrow> uuid \<Rightarrow> error + FloorPlanVersion option" where
  "get_latest_version db floor_plan_id =
     scalar_one_or_none (order_by_version_desc_limit_1
       (filter (\<lambda>v. fpv_floor_plan_id v = floor_plan_id) (floor_plan_versions db)))"

text \<open>
  \<open>create_floor_plan\<close>. After the access check, the query for a floor plan of the same
  name and type, and the validation of the grid, the method builds its row with
  \<open>FloorPlan(..., created_by_id=created_by.id)\<close>. The class has the column
  \<open>created_by_code\<close> and no attribute \<open>created_by_id\<close>, so the constructor raises
  \<open>TypeError\<close>; nothing has been added to the session by then.
\<close>

definition create_floor_plan ::
  "database \<Rightarrow> FloorPlanCreate \<Rightarrow> User \<Rightarrow> (error + FloorPlan) \<times> database" where
  "create_floor_plan db floor_plan_data created_by =
     (if \<not> can_manage_plan_type created_by (fpc_plan_type floor_plan_data)
        then (Inl (NoPermissionCreate (fpc_plan_type floor_plan_data)), db)
      else case scalar_one_or_none
             (filter (\<lambda>fp. fp_name fp = fpc_name floor_plan_data
                          \<and> fp_plan_type fp = fpc_plan_type floor_plan_data) (floor_plans db)) of
          Inl e \<Rightarrow> (Inl e, db)
        | Inr (Some existing) \<Rightarrow> (Inl (DuplicateFloorPlanName (fpc_plan_type floor_plan_data)), db)
        | Inr None \<Rightarrow>
           (case validate_grid_data (fpc_grid_data floor_plan_data) (fpc_rows floor_plan_data)
                   (fpc_columns floor_plan_data) (fpc_plan_type floor_plan_data) of
              Inl e \<Rightarrow> (Inl e, db)
            | Inr _ \<Rightarrow> (Inl (Raised TypeError), db)))"

text \<open>
  \<open>create_version\<close>. After the lookup of the floor plan, the access check and the
  validation of the grid, \<open>floor_plan.current_version + 1\<close> raises \<open>TypeError\<close> when the
  column is null, and otherwise the constructor
  \<open>FloorPlanVersion(..., created_by_id=created_by.id, ...)\<close> does, for the same reason as
  in \<open>create_floor_plan\<close>. The statements after it, which add the version to the session,
  set \<open>floor_plan.current_version\<close> and commit, are not reached.
\<close>

definition create_version ::
  "database \<Rightarrow> uuid \<Rightarrow> FloorPlanVersionCreate \<Rightarrow> User \<Rightarrow> (error + FloorPlanVersion) \<times> database" where
  "create_version db floor_plan_id version_data created_by =
     (case get_floor_plan_by_id db floor_plan_id of
        Inl e \<Rightarrow> (Inl e, db)
      | Inr None \<Rightarrow> (Inl FloorPlanNotFound, db)
      | Inr (Some floor_plan) \<Rightarrow>
         if \<not> can_manage_plan_type created_by (fp_plan_type floor_plan)
           then (Inl (NoPermissionModify (fp_plan_type floor_plan)), db)
         else case validate_grid_data (fvc_grid_data version_data) (fp_rows floor_plan)
                     (fp_columns floor_plan) (fp_plan_type floor_plan) of
             Inl e \<Rightarrow> (Inl e, db)
           | Inr _ \<Rightarrow>
              (case fp_current_version floor_plan of
                 None \<Rightarrow> (Inl (Raised TypeError), db)
               | Some current_version \<Rightarrow> (Inl (Raised TypeError), db)))"

section \<open>DeskService\<close>

definition desk_get_booking_by_id :: "database \<Rightarrow> uuid \<Rightarrow> error + DeskBooking option" where
  "desk_get_booking_by_id db booking_id =
     scalar_one_or_none (filter (\<lambda>b. dbk_id b = booking_id) (desk_bookings db))"

text \<open>
  \<open>validate_desk_cell\<close>: the error, or the number of the version the cell was checked
  against. In \<open>a or b\<close> the second operand is evaluated only when the first is false, so
  \<open>grid_data[0]\<close> is read only when the row index is below the number of rows.
\<close>

definition validate_desk_cell :: "database \<Rightarrow> uuid \<Rightarrow> string \<Rightarrow> string \<Rightarrow> error + int" where
  "validate_desk_cell db floor_plan_id cell_row cell_column =
     (case get_latest_version db floor_plan_id of
        Inl e \<Rightarrow> Inl e
      | Inr None \<Rightarrow> Inl FloorPlanNotFound
      | Inr (Some version) \<Rightarrow>
         (case py_int cell_row of
            Inl e \<Rightarrow> Inl e
          | Inr row_idx \<Rightarrow>
             (case py_int cell_column of
                Inl e \<Rightarrow> Inl e
              | Inr col_idx \<Rightarrow>
                 if row_idx \<ge> int (length (fpv_grid_data version)) then Inl CellOutOfBounds
                 else (case py_index (fpv_grid_data version) 0 of
                    Inl e \<Rightarrow> Inl e
                  | Inr row0 \<Rightarrow>
                     if col_idx \<ge> int (length row0) then Inl CellOutOfBounds
                     else (case py_index (fpv_grid_data version) row_idx of
                        Inl e \<Rightarrow> Inl e
                      | Inr row \<Rightarrow>
                         (case py_index row col_idx of
                            Inl e \<Rightarrow> Inl e
                          | Inr c \<Rightarrow>
                             if \<not> json_eq_str (py_get c ''cell_type'') (cell_type_value DESK)
                               then Inl CellNotDesk
                             else if \<not> truthy (py_get_default c ''is_active'' (JBool True))
                               then Inl DeskNotActive
                             else Inr (fpv_version version)))))))"

text \<open>
  \<open>check_booking_overlap\<close>. The first condition of its query is
  \<open>DeskBooking.floor_plan_id == floor_plan_id\<close>, and the class \<open>DeskBooking\<close> has neither
  \<open>floor_plan_id\<close> nor \<open>desk_label\<close> (a booking refers to its desk by \<open>desk_id\<close>): building
  the query raises \<open>AttributeError\<close> before the database is asked anything.
\<close>

definition desk_check_booking_overlap ::
  "database \<Rightarrow> uuid \<Rightarrow> string \<Rightarrow> pydate \<Rightarrow> pytime \<Rightarrow> pytime \<Rightarrow> uuid option \<Rightarrow> error + bool" where
  "desk_check_booking_overlap db floor_plan_id desk_label booking_date start_time end_time
       exclude_booking_id = Inl (Raised AttributeError)"

text \<open>
  \<open>update_booking\<close> and \<open>cancel_booking\<close>. Both load the booking and then compare
  \<open>str(booking.user_id)\<close> with \<open>str(user.id)\<close>. A row of \<open>DeskBooking\<close> has \<open>user_code\<close> and
  no \<open>user_id\<close>, so for a booking that exists the left operand raises \<open>AttributeError\<close>;
  the booking has not been changed by then.
\<close>

definition desk_update_booking ::
  "database \<Rightarrow> uuid \<Rightarrow> DeskBookingUpdate \<Rightarrow> User \<Rightarrow> (error + DeskBooking) \<times> database" where
  "desk_update_booking db booking_id booking_data user =
     (case desk_get_booking_by_id db booking_id of
        Inl e \<Rightarrow> (Inl e, db)
      | Inr None \<Rightarrow> (Inl BookingNotFound, db)
      | Inr (Some booking) \<Rightarrow> (Inl (Raised AttributeError), db))"

text \<open>\<open>(True, None)\<close> of \<open>cancel_booking\<close> is \<open>Inr ()\<close>, \<open>(False, message)\<close> is \<open>Inl\<close>.\<close>

definition desk_cancel_booking ::
  "database \<Rightarrow> uuid \<Rightarrow> User \<Rightarrow> (error + unit) \<times> database" where
  "desk_cancel_booking db booking_id user =
     (case desk_get_booking_by_id db booking_id of
        Inl e \<Rightarrow> (Inl e, db)
      | Inr None \<Rightarrow> (Inl BookingNotFound, db)
      | Inr (Some booking) \<Rightarrow> (Inl (Raised AttributeError), db))"

section \<open>CafeteriaService\<close>

definition cafeteria_get_booking_by_id ::
  "database \<Rightarrow> uuid \<Rightarrow> error + CafeteriaTableBooking option" where
  "cafeteria_get_booking_by_id db booking_id =
     scalar_one_or_none (filter (\<lambda>b. cbk_id b = booking_id) (cafeteria_table_bookings db))"

text \<open>
  \<open>check_booking_overlap\<close>: the \<open>where\<close> clause of the query, the optional exclusion of
  one booking (a UUID is always true as a condition), and \<open>scalar_one_or_none\<close> on the
  rows that remain.
\<close>

definition cafeteria_overlap_where ::
  "uuid \<Rightarrow> string \<Rightarrow> pydate \<Rightarrow> pytime \<Rightarrow> pytime \<Rightarrow> CafeteriaTableBooking \<Rightarrow> bool" where
  "cafeteria_overlap_where floor_plan_id table_label booking_date start_time end_time b =
     (cbk_floor_plan_id b = floor_plan_id
      \<and> cbk_table_label b = table_label
      \<and> cbk_booking_date b = booking_date
      \<and> (cbk_status b = Some PENDING \<or> cbk_status b = Some CONFIRMED)
      \<and> ((cbk_start_time b \<le> start_time \<and> cbk_end_time b > start_time)
         \<or> (cbk_start_time b < end_time \<and> cbk_end_time b \<ge> end_time)
         \<or> (cbk_start_time b \<ge> start_time \<and> cbk_end_time b \<le> end_time)))"

definition cafeteria_check_booking_overlap ::
  "database \<Rightarrow> uuid \<Rightarrow> string \<Rightarrow> pydate \<Rightarrow> pytime \<Rightarrow> pytime \<Rightarrow> uuid option \<Rightarrow> error + bool" where
  "cafeteria_check_booking_overlap db floor_plan_id table_label booking_date start_time end_time
       exclude_booking_id =
     (let query = filter (cafeteria_overlap_where floor_plan_id table_label booking_date
                            start_time end_time) (cafeteria_table_bookings db);
          query = (case exclude_booking_id of
                     Some x \<Rightarrow> filter (\<lambda>b. cbk_id b \<noteq> x) query
                   | None \<Rightarrow> query)
      in case scalar_one_or_none query of
           Inl e \<Rightarrow> Inl e
         | Inr r \<Rightarrow> Inr (r \<noteq> None))"

text \<open>\<open>cancel_booking\<close>: \<open>(True, None)\<close> is \<open>Inr ()\<close>, \<open>(False, message)\<close> is \<open>Inl\<close>.\<close>

definition cafeteria_cancel_booking ::
  "database \<Rightarrow> uuid \<Rightarrow> User \<Rightarrow> (error + unit) \<times> database" where
  "cafeteria_cancel_booking db booking_id user =
     (case cafeteria_get_booking_by_id db booking_id of
        Inl e \<Rightarrow> (Inl e, db)
      | Inr None \<Rightarrow> (Inl BookingNotFound, db)
      | Inr (Some booking) \<Rightarrow>
         if cbk_user_id booking \<noteq> user_id user
            \<and> user_role user \<notin> set [SUPER_ADMIN, ADMIN]
           then (Inl CannotCancelOthersBooking, db)
         else
           (Inr (),
            db\<lparr> cafeteria_table_bookings :=
                  map (\<lambda>b. if cbk_id b = booking_id
                             then booking\<lparr> cbk_status := Some CANCELLED \<rparr> else b)
                      (cafeteria_table_bookings db) \<rparr>))"

section \<open>ParkingService\<close>

definition can_manage_parking :: "User \<Rightarrow> bool" where
  "can_manage_parking user =
     (if user_role user = SUPER_ADMIN then True
      else if user_role user = ADMIN then True
      else if user_role user = MANAGER \<and> user_manager_type user = Some MT_PARKING then True
      else False)"

definition get_allocation_by_id :: "database \<Rightarrow> uuid \<Rightarrow> error + ParkingAllocation option" where
  "get_allocation_by_id db allocation_id =
     scalar_one_or_none (filter (\<lambda>a. pa_id a = allocation_id) (parking_allocations db))"

text \<open>
  \<open>get_parking_floor_plans\<close>: the query has no \<open>ORDER BY\<close>, so the rows come in no
  particular order; the result is the set of them.
\<close>

definition get_parking_floor_plans :: "database \<Rightarrow> FloorPlan set" where
  "get_parking_floor_plans db =
     set (filter (\<lambda>fp. fp_plan_type fp = PARKING \<and> fp_is_active fp = Some True) (floor_plans db))"

text \<open>
  \<open>check_user_active_parking\<close> and \<open>check_slot_availability\<close>. The first condition of the
  one query is \<open>ParkingAllocation.user_id == user_id\<close>, that of the other
  \<open>ParkingAllocation.floor_plan_id == floor_plan_id\<close>. The class \<open>ParkingAllocation\<close> has
  \<open>user_code\<close> and \<open>slot_id\<close>, and neither \<open>user_id\<close> nor \<open>floor_plan_id\<close> nor \<open>slot_label\<close>:
  building either query raises \<open>AttributeError\<close>.
\<close>

definition check_user_active_parking ::
  "database \<Rightarrow> uuid \<Rightarrow> error + ParkingAllocation option" where
  "check_user_active_parking db uid = Inl (Raised AttributeError)"

definition check_slot_availability :: "database \<Rightarrow> uuid \<Rightarrow> string \<Rightarrow> error + bool" where
  "check_slot_availability db floor_plan_id slot_label = Inl (Raised AttributeError)"

text \<open>
  \<open>get_available_slots\<close>. The method returns the empty list for a floor plan that does
  not exist, is not a parking plan or has no version. Otherwise it builds the query for
  the occupied labels, \<open>select(ParkingAllocation.slot_label)\<close>, which raises
  \<open>AttributeError\<close>; the scan of the grid after it is not reached.
\<close>

definition get_available_slots :: "database \<Rightarrow> uuid \<Rightarrow> error + cell list" where
  "get_available_slots db floor_plan_id =
     (case get_floor_plan_by_id db floor_plan_id of
        Inl e \<Rightarrow> Inl e
      | Inr None \<Rightarrow> Inr []
      | Inr (Some floor_plan) \<Rightarrow>
         if fp_plan_type floor_plan \<noteq> PARKING then Inr []
         else (case get_latest_version db floor_plan_id of
            Inl e \<Rightarrow> Inl e
          | Inr None \<Rightarrow> Inr []
          | Inr (Some version) \<Rightarrow> Inl (Raised AttributeError)))"

text \<open>
  The pattern \<open>^\+?[\d\s-]{10,15}$\<close> under \<open>re.match\<close>: an optional plus sign, then ten to
  fifteen digits, white-space characters and hyphens up to the end of the string, where
  \<open>$\<close> also matches just before a final newline.
\<close>

definition phone_class :: "char \<Rightarrow> bool" where
  "phone_class c = (is_digit c \<or> is_space c \<or> c = CHR ''-'')"

definition phone_pattern_match :: "string \<Rightarrow> bool" where
  "phone_pattern_match p =
     (let t = (if p \<noteq> [] \<and> hd p = CHR ''+'' then tl p else p); n = length t
      in list_all phone_class t
         \<and> ((10 \<le> n \<and> n \<le> 15) \<or> (11 \<le> n \<and> n \<le> 16 \<and> last t = CHR 0x0A)))"

text \<open>
  \<open>assign_visitor_slot\<close>. After the permission check, the checks of the visitor's name and
  phone number, and the query for the parking floor plans, the method asks
  \<open>visitor_data.floor_plan_id and visitor_data.slot_label\<close> to choose between the requested
  slot and auto-assignment. The schema \<open>VisitorParkingCreate\<close> has \<open>slot_id\<close> and neither
  \<open>floor_plan_id\<close> nor \<open>slot_label\<close>: the condition raises \<open>AttributeError\<close>, and neither
  branch is reached.
\<close>

definition assign_visitor_slot ::
  "database \<Rightarrow> VisitorParkingCreate \<Rightarrow> User \<Rightarrow> (error + ParkingAllocation) \<times> database" where
  "assign_visitor_slot db visitor_data assigned_by =
     (if \<not> can_manage_parking assigned_by then (Inl OnlyAdminAssignVisitor, db)
      else if vpc_visitor_name visitor_data = []
              \<or> length (py_strip (vpc_visitor_name visitor_data)) < 2
        then (Inl VisitorNameRequired, db)
      else if (case vpc_visitor_phone visitor_data of
                 None \<Rightarrow> False
               | Some phone \<Rightarrow> phone \<noteq> [] \<and> \<not> phone_pattern_match phone)
        then (Inl InvalidPhone, db)
      else if get_parking_floor_plans db = {} then (Inl NoParkingFloorPlans, db)
      else (Inl (Raised AttributeError), db))"

text \<open>
  \<open>create_allocation\<close>. Its first statement calls \<open>validate_parking_slot\<close> with
  \<open>allocation_data.floor_plan_id\<close>, \<open>allocation_data.cell_row\<close> and
  \<open>allocation_data.cell_column\<close>. The schema \<open>ParkingAllocationCreate\<close> has \<open>slot_id\<close> and
  none of the three: evaluating the first argument raises \<open>AttributeError\<close> on every
  request, before anything is validated or looked up.
\<close>

definition create_allocation ::
  "database \<Rightarrow> ParkingAllocationCreate \<Rightarrow> User \<Rightarrow> (error + ParkingAllocation) \<times> database" where
  "create_allocation db allocation_data created_by = (Inl (Raised AttributeError), db)"

text \<open>
  \<open>record_entry\<close>. A \<open>datetime\<close> is always true as a condition, so
  \<open>timestamp or datetime.now(timezone.utc)\<close> is the timestamp when one is passed, and
  \<open>now\<close> otherwise.
\<close>

definition record_entry ::
  "database \<Rightarrow> uuid \<Rightarrow> pydatetime option \<Rightarrow> pydatetime
     \<Rightarrow> (error + ParkingAllocation) \<times> database" where
  "record_entry db allocation_id timestamp now =
     (case get_allocation_by_id db allocation_id of
        Inl e \<Rightarrow> (Inl e, db)
      | Inr None \<Rightarrow> (Inl AllocationNotFound, db)
      | Inr (Some allocation) \<Rightarrow>
         if pa_entry_time allocation \<noteq> None then (Inl EntryAlreadyRecorded, db)
         else
           let allocation' = allocation\<lparr> pa_entry_time :=
                               Some (case timestamp of Some t \<Rightarrow> t | None \<Rightarrow> now) \<rparr>
           in (Inr allocation',
               db\<lparr> parking_allocations :=
                     map (\<lambda>a. if pa_id a = allocation_id then allocation' else a)
                         (parking_allocations db) \<rparr>))"

text \<open>
  \<open>record_exit\<close>. After its four checks the method sets \<open>exit_time\<close> and \<open>is_active\<close> on the
  loaded row, computes the duration and builds the history row with
  \<open>ParkingHistory(allocation_id=allocation.id, floor_plan_id=allocation.floor_plan_id, ...)\<close>.
  A row of \<open>ParkingAllocation\<close> has no \<open>floor_plan_id\<close>: evaluating that argument raises
  \<open>AttributeError\<close> before the history row exists and before the commit, so neither the
  exit time nor the history row reaches the database.
\<close>

definition record_exit ::
  "database \<Rightarrow> uuid \<Rightarrow> User \<Rightarrow> pydatetime option
     \<Rightarrow> (error + ParkingAllocation) \<times> database" where
  "record_exit db allocation_id recorded_by timestamp =
     (case get_allocation_by_id db allocation_id of
        Inl e \<Rightarrow> (Inl e, db)
      | Inr None \<Rightarrow> (Inl AllocationNotFound, db)
      | Inr (Some allocation) \<Rightarrow>
         if pa_parking_type allocation = PT_VISITOR \<and> \<not> can_manage_parking recorded_by
           then (Inl OnlyAdminVisitorExit, db)
         else if pa_entry_time allocation = None then (Inl NoEntryRecorded, db)
         else if pa_exit_time allocation \<noteq> None then (Inl ExitAlreadyRecorded, db)
         else (Inl (Raised AttributeError), db))"

section \<open>The specification's reading of grid validation\<close>

text \<open>
  The cell types that the specification allows in a plan of each type: the bookable kind of
  the plan, and the five kinds that every plan may hold.
\<close>

fun allowed_cell_types :: "FloorPlanType \<Rightarrow> string set" where
  "allowed_cell_types DESK_AREA =
     {''desk'', ''path'', ''wall'', ''entry'', ''exit'', ''empty''}"
| "allowed_cell_types CAFETERIA =
     {''cafeteria_table'', ''path'', ''wall'', ''entry'', ''exit'', ''empty''}"
| "allowed_cell_types PARKING =
     {''parking_slot'', ''path'', ''wall'', ''entry'', ''exit'', ''empty''}"

text \<open>
  The grid rules as the specification words them. A cell breaks the cell-type rule when it
  has no \<open>cell_type\<close>, an empty one, or one outside the allowed set of the plan type; a row
  breaks the shape rule when it does not have \<open>columns\<close> cells; the grid breaks it when it
  does not have \<open>rows\<close> rows. \<open>grid_violations\<close> lists every violation of a grid in scan
  order: the row count, then row after row, the length of a row before its cells, and the
  cells of a row from left to right.
\<close>

definition cell_violation :: "FloorPlanType \<Rightarrow> nat \<Rightarrow> nat \<Rightarrow> cell \<Rightarrow> error list" where
  "cell_violation plan_type r c x =
     (case map_of x ''cell_type'' of
        None \<Rightarrow> [MissingCellType r c]
      | Some v \<Rightarrow>
          if \<not> truthy v then [MissingCellType r c]
          else if v \<notin> JStr ` allowed_cell_types plan_type
            then [InvalidCellType v plan_type r c]
          else [])"

definition row_violations :: "FloorPlanType \<Rightarrow> int \<Rightarrow> nat \<Rightarrow> cell list \<Rightarrow> error list" where
  "row_violations plan_type columns r row =
     (if int (length row) \<noteq> columns then [RowColumnCount r columns] else [])
     @ concat (map (\<lambda>(c, x). cell_violation plan_type r c x) (enumerate 0 row))"

definition grid_violations :: "grid \<Rightarrow> int \<Rightarrow> int \<Rightarrow> FloorPlanType \<Rightarrow> error list" where
  "grid_violations g rows columns plan_type =
     (if int (length g) \<noteq> rows then [GridRowCount rows] else [])
     @ concat (map (\<lambda>(r, row). row_violations plan_type columns r row) (enumerate 0 g))"

definition cell_ok :: "FloorPlanType \<Rightarrow> cell \<Rightarrow> bool" where
  "cell_ok plan_type x =
     (case map_of x ''cell_type'' of
        Some (JStr s) \<Rightarrow> s \<noteq> [] \<and> s \<in> allowed_cell_types plan_type
      | _ \<Rightarrow> False)"

definition grid_ok :: "grid \<Rightarrow> int \<Rightarrow> int \<Rightarrow> FloorPlanType \<Rightarrow> bool" where
  "grid_ok g rows columns plan_type =
     (int (length g) = rows
      \<and> list_all (\<lambda>row. int (length row) = columns) g
      \<and> list_all (list_all (cell_ok plan_type)) g)"

text \<open>The first element of a list, if it has one.\<close>

definition first_of :: "'a list \<Rightarrow> 'a option" where
  "first_of xs = (case xs of [] \<Rightarrow> None | v # _ \<Rightarrow> Some v)"

text \<open>
  The coordinates that an error message of the validation names: the row and the column of
  a cell, the row alone, or nothing.
\<close>

fun error_row :: "error \<Rightarrow> nat option" where
  "error_row (RowColumnCount r n) = Some r"
| "error_row (MissingCellType r c) = Some r"
| "error_row (InvalidCellType v p r c) = Some r"
| "error_row _ = None"

fun error_column :: "error \<Rightarrow> nat option" where
  "error_column (MissingCellType r c) = Some c"
| "error_column (InvalidCellType v p r c) = Some c"
| "error_column _ = None"

section \<open>Example data\<close>

definition ex_grid_valid :: grid where
  "ex_grid_valid =
     [[[(''cell_type'', JStr ''desk''), (''label'', JStr ''D1'')], [(''cell_type'', JStr ''path'')]],
      [[(''cell_type'', JStr ''wall'')], [(''cell_type'', JStr ''empty'')]]]"

definition ex_grid_two_violations :: grid where
  "ex_grid_two_violations =
     [[[(''cell_type'', JStr ''desk'')], [(''cell_type'', JStr ''parking_slot'')]],
      [[(''cell_type'', JStr ''cafeteria_table'')], [(''cell_type'', JStr ''path'')]]]"

text \<open>
  A row of three cells: a table, a cell whose \<open>cell_type\<close> is a list, and a cell without
  one.
\<close>

definition ex_grid_cafeteria :: grid where
  "ex_grid_cafeteria =
     [[[(''cell_type'', JStr ''cafeteria_table'')],
       [(''cell_type'', JArr [JStr ''path''])],
       [(''label'', JStr ''T2'')]]]"

text \<open>\<open>hm h m\<close> is \<open>time(h, m)\<close>.\<close>

definition hm :: "nat \<Rightarrow> nat \<Rightarrow> pytime" where
  "hm h m = (h * 60 + m) * 60000000"

definition empty_db :: database where
  "empty_db = \<lparr> floor_plans = [], floor_plan_versions = [], desk_bookings = [],
                cafeteria_table_bookings = [], parking_allocations = [], parking_history = [] \<rparr>"

definition ex_user :: "uuid \<Rightarrow> UserRole \<Rightarrow> ManagerType option \<Rightarrow> User" where
  "ex_user i r mt = \<lparr> user_id = i, user_role = r, user_manager_type = mt \<rparr>"

definition ex_desk_booking ::
  "uuid \<Rightarrow> string \<Rightarrow> pytime \<Rightarrow> pytime \<Rightarrow> BookingStatus \<Rightarrow> DeskBooking" where
  "ex_desk_booking i owner s e st =
     \<lparr> dbk_id = i, dbk_desk_id = 1, dbk_user_code = owner, dbk_booking_date = 100,
       dbk_start_time = s, dbk_end_time = e, dbk_status = Some st,
       dbk_checked_in_at = None, dbk_checked_out_at = None, dbk_notes = None,
       dbk_cancellation_reason = None, dbk_cancelled_at = None \<rparr>"

definition ex_table_booking ::
  "uuid \<Rightarrow> uuid \<Rightarrow> pytime \<Rightarrow> pytime \<Rightarrow> BookingStatus \<Rightarrow> CafeteriaTableBooking" where
  "ex_table_booking i owner s e st =
     \<lparr> cbk_id = i, cbk_floor_plan_id = 2, cbk_table_label = ''T1'',
       cbk_cell_row = ''1'', cbk_cell_column = ''1'', cbk_user_id = owner,
       cbk_booking_date = 100, cbk_start_time = s, cbk_end_time = e,
       cbk_guest_count = Some ''1'', cbk_status = Some st, cbk_notes = None \<rparr>"

text \<open>
  Desk 1 and table T1 on day 100: 9:00 to 10:00 and 10:00 to 11:00 confirmed, 12:00 to
  13:00 cancelled, 14:00 to 15:00 completed. Bookings 1, 3 and 4 belong to user 5 (user
  code \<open>EMP005\<close>), booking 2 to user 6.
\<close>

definition ex_bookings_db :: database where
  "ex_bookings_db = empty_db
     \<lparr> desk_bookings := [ex_desk_booking 1 ''EMP005'' (hm 9 0) (hm 10 0) CONFIRMED,
                         ex_desk_booking 2 ''EMP006'' (hm 10 0) (hm 11 0) CONFIRMED,
                         ex_desk_booking 3 ''EMP005'' (hm 12 0) (hm 13 0) CANCELLED,
                         ex_desk_booking 4 ''EMP005'' (hm 14 0) (hm 15 0) COMPLETED],
       cafeteria_table_bookings := [ex_table_booking 1 5 (hm 9 0) (hm 10 0) CONFIRMED,
                         ex_table_booking 2 6 (hm 10 0) (hm 11 0) CONFIRMED,
                         ex_table_booking 3 5 (hm 12 0) (hm 13 0) CANCELLED,
                         ex_table_booking 4 5 (hm 14 0) (hm 15 0) COMPLETED] \<rparr>"

definition ex_floor_plan :: "uuid \<Rightarrow> FloorPlanType \<Rightarrow> int \<Rightarrow> int \<Rightarrow> int \<Rightarrow> FloorPlan" where
  "ex_floor_plan i t r c v =
     \<lparr> fp_id = i, fp_floor_code = ''FLP-0001'', fp_name = ''Floor'', fp_plan_type = t,
       fp_rows = r, fp_columns = c, fp_is_active = Some True, fp_description = None,
       fp_current_version = Some v, fp_created_by_code = ''ADM001'',
       fp_building_name = None, fp_floor_number = None \<rparr>"

definition ex_version :: "uuid \<Rightarrow> int \<Rightarrow> grid \<Rightarrow> FloorPlanVersion" where
  "ex_version i n g =
     \<lparr> fpv_id = 100 * i + nat n, fpv_floor_plan_id = i, fpv_version = n, fpv_grid_data = g,
       fpv_is_active = Some True, fpv_created_by_code = ''ADM001'', fpv_change_notes = None \<rparr>"

text \<open>A desk area of two rows and two columns whose only desk is at row 1, column 1.\<close>

definition ex_desk_grid :: grid where
  "ex_desk_grid =
     [[[(''cell_type'', JStr ''path'')], [(''cell_type'', JStr ''path'')]],
      [[(''cell_type'', JStr ''path'')], [(''cell_type'', JStr ''desk''), (''label'', JStr ''D1'')]]]"

definition ex_desk_plan_db :: database where
  "ex_desk_plan_db = empty_db
     \<lparr> floor_plans := [ex_floor_plan 1 DESK_AREA 2 2 1],
       floor_plan_versions := [ex_version 1 1 ex_desk_grid] \<rparr>"

text \<open>
  The request of an admin for a desk area with the valid grid, and a request for a second
  version of floor plan 1.
\<close>

definition ex_plan_data :: FloorPlanCreate where
  "ex_plan_data =
     \<lparr> fpc_name = ''Level 1'', fpc_plan_type = DESK_AREA, fpc_rows = 2, fpc_columns = 2,
       fpc_description = None, fpc_building_name = None, fpc_floor_number = None,
       fpc_grid_data = ex_grid_valid \<rparr>"

definition ex_version_data :: FloorPlanVersionCreate where
  "ex_version_data = \<lparr> fvc_grid_data = ex_grid_valid, fvc_change_notes = Some ''moved D1'' \<rparr>"

text \<open>
  A parking floor of three rows and three columns with the slots P1 at (1, 1), P2 at (1, 2)
  and P3 at (2, 2), first with no allocation at all. Then with four: an employee in slot 11
  since second 90, a visitor who left slot 12 after a minute, a visitor in slot 12 since
  second 120, and an employee's row without an entry time, which the method provides for
  although the column does not allow it.
\<close>

definition ex_parking_grid :: grid where
  "ex_parking_grid =
     [[[(''cell_type'', JStr ''path'')], [(''cell_type'', JStr ''path'')],
       [(''cell_type'', JStr ''path'')]],
      [[(''cell_type'', JStr ''path'')],
       [(''cell_type'', JStr ''parking_slot''), (''label'', JStr ''P1'')],
       [(''cell_type'', JStr ''parking_slot''), (''label'', JStr ''P2'')]],
      [[(''cell_type'', JStr ''path'')], [(''cell_type'', JStr ''path'')],
       [(''cell_type'', JStr ''parking_slot''), (''label'', JStr ''P3'')]]]"

definition ex_parking_db :: database where
  "ex_parking_db = empty_db
     \<lparr> floor_plans := [ex_floor_plan 3 PARKING 3 3 1],
       floor_plan_versions := [ex_version 3 1 ex_parking_grid] \<rparr>"

definition ex_allocation ::
  "uuid \<Rightarrow> uuid \<Rightarrow> ParkingType \<Rightarrow> string option \<Rightarrow> bool
     \<Rightarrow> pydatetime option \<Rightarrow> pydatetime option \<Rightarrow> ParkingAllocation" where
  "ex_allocation i slot t u active entry exit =
     \<lparr> pa_id = i, pa_slot_id = slot, pa_user_code = u, pa_parking_type = t,
       pa_visitor_name = (if t = PT_VISITOR then Some ''Vi Sitor'' else None),
       pa_visitor_phone = None, pa_visitor_company = None, pa_vehicle_number = ''B-XY 1234'',
       pa_entry_time = entry, pa_expected_exit_time = None, pa_exit_time = exit,
       pa_is_active = Some active, pa_notes = None \<rparr>"

definition ex_held_db :: database where
  "ex_held_db = ex_parking_db
     \<lparr> parking_allocations :=
         [ex_allocation 1 11 PT_EMPLOYEE (Some ''EMP007'') True (Some 90000000) None,
          ex_allocation 2 12 PT_VISITOR None False (Some 0) (Some 60000000),
          ex_allocation 3 12 PT_VISITOR None True (Some 120000000) None,
          ex_allocation 4 13 PT_EMPLOYEE (Some ''EMP008'') True None None] \<rparr>"

definition ex_visitor :: VisitorParkingCreate where
  "ex_visitor =
     \<lparr> vpc_visitor_name = '' Vi Sitor '', vpc_visitor_phone = Some ''+49 30 1234-5678'',
       vpc_visitor_company = None, vpc_vehicle_number = None, vpc_notes = None,
       vpc_host_user_code = None, vpc_slot_id = None \<rparr>"

text \<open>The request of an employee for slot 13.\<close>

definition ex_request :: ParkingAllocationCreate where
  "ex_request = \<lparr> pac_vehicle_number = ''B-XY 1234'', pac_notes = None, pac_slot_id = 13 \<rparr>"


section \<open>Access to floor plans\<close>

text \<open>
  C8. \<open>can_manage_plan_type\<close> depends on the role and the manager type of the user only. It
  is true for every super admin and every admin, whatever the plan type; for a manager it is
  true exactly when the plan type and the manager type form a line of the table
  desk area / desk-conference, cafeteria / cafeteria, parking / parking; it is false for
  every other role, and for a manager without a manager type.
\<close>

theorem can_manage_plan_type_table:
  "can_manage_plan_type user plan_type =
     (user_role user \<in> {SUPER_ADMIN, ADMIN}
      \<or> (user_role user = MANAGER
          \<and> (plan_type, user_manager_type user) \<in>
               {(DESK_AREA, Some MT_DESK_CONFERENCE),
                (CAFETERIA, Some MT_CAFETERIA),
                (PARKING, Some MT_PARKING)}))"
  by (cases plan_type; cases "user_role user"; cases "user_manager_type user")
     (auto simp: can_manage_plan_type_def)

theorem can_manage_plan_type_table_witness:
  "can_manage_plan_type (ex_user 1 MANAGER (Some MT_PARKING)) PARKING
   \<and> \<not> can_manage_plan_type (ex_user 1 MANAGER (Some MT_PARKING)) CAFETERIA
   \<and> \<not> can_manage_plan_type (ex_user 1 MANAGER None) PARKING
   \<and> \<not> can_manage_plan_type (ex_user 1 MANAGER (Some MT_IT_SUPPORT)) DESK_AREA
   \<and> can_manage_plan_type (ex_user 2 ADMIN None) DESK_AREA
   \<and> can_manage_plan_type (ex_user 3 SUPER_ADMIN None) CAFETERIA
   \<and> \<not> can_manage_plan_type (ex_user 4 EMPLOYEE (Some MT_PARKING)) PARKING
   \<and> \<not> can_manage_plan_type (ex_user 4 TEAM_LEAD (Some MT_CAFETERIA)) CAFETERIA"
  using can_manage_plan_type_table [of "ex_user 1 MANAGER (Some MT_PARKING)" PARKING]
    can_manage_plan_type_table [of "ex_user 1 MANAGER (Some MT_PARKING)" CAFETERIA]
    can_manage_plan_type_table [of "ex_user 1 MANAGER None" PARKING]
    can_manage_plan_type_table [of "ex_user 1 MANAGER (Some MT_IT_SUPPORT)" DESK_AREA]
    can_manage_plan_type_table [of "ex_user 2 ADMIN None" DESK_AREA]
    can_manage_plan_type_table [of "ex_user 3 SUPER_ADMIN None" CAFETERIA]
    can_manage_plan_type_table [of "ex_user 4 EMPLOYEE (Some MT_PARKING)" PARKING]
    can_manage_plan_type_table [of "ex_user 4 TEAM_LEAD (Some MT_CAFETERIA)" CAFETERIA]
  by (simp add: ex_user_def)

section \<open>Grid validation\<close>

lemma first_of_simps:
  "first_of [] = None" "first_of (v # vs) = Some v"
  "first_of (xs @ ys) = (case first_of xs of Some v \<Rightarrow> Some v | None \<Rightarrow> first_of ys)"
  by (simp_all add: first_of_def split: list.splits)

text \<open>
  The strings that \<open>validate_grid_data\<close> accepts in a plan of a type are those that the
  specification allows there.
\<close>

lemma json_in_allowed:
  "json_in v (map cell_type_value (VALID_CELL_TYPES pt)) \<longleftrightarrow> v \<in> JStr ` allowed_cell_types pt"
  by (cases pt; cases v) auto

lemma cell_violation_empty_iff: "cell_violation pt r c x = [] \<longleftrightarrow> cell_ok pt x"
  by (auto simp: cell_violation_def cell_ok_def split: option.splits json.splits)

lemma first_of_cell_violation:
  "first_of (cell_violation pt r c x) =
     (let cell_type = py_get x ''cell_type'' in
      if \<not> truthy cell_type then Some (MissingCellType r c)
      else if \<not> json_in cell_type (map cell_type_value (VALID_CELL_TYPES pt))
        then Some (InvalidCellType cell_type pt r c)
      else None)"
  by (simp add: cell_violation_def py_get_def json_in_allowed first_of_simps Let_def
           split: option.splits)

text \<open>The loops of \<open>validate_grid_data\<close> stop at the first violation of the scan.\<close>

lemma validate_cells_scan:
  "validate_cells (map cell_type_value (VALID_CELL_TYPES pt)) pt r c xs =
     first_of (concat (map (\<lambda>(c, x). cell_violation pt r c x) (enumerate c xs)))"
proof (induction xs arbitrary: c)
  case Nil
  show ?case by (simp add: first_of_simps)
next
  case (Cons x xs)
  show ?case
    by (simp add: Cons.IH first_of_simps first_of_cell_violation Let_def)
qed

lemma first_of_row_violations:
  "first_of (row_violations pt columns r row) =
     (if int (length row) \<noteq> columns then Some (RowColumnCount r columns)
      else validate_cells (map cell_type_value (VALID_CELL_TYPES pt)) pt r 0 row)"
  by (simp add: row_violations_def first_of_simps validate_cells_scan)

lemma validate_rows_scan:
  "validate_rows (map cell_type_value (VALID_CELL_TYPES pt)) pt columns r g =
     first_of (concat (map (\<lambda>(r, row). row_violations pt columns r row) (enumerate r g)))"
proof (induction g arbitrary: r)
  case Nil
  show ?case by (simp add: first_of_simps)
next
  case (Cons row g)
  show ?case
    by (simp add: Cons.IH first_of_simps first_of_row_violations split: option.splits)
qed

lemma validate_grid_data_scan:
  "validate_grid_data g rows columns pt =
     (case first_of (grid_violations g rows columns pt) of None \<Rightarrow> Inr () | Some v \<Rightarrow> Inl v)"
  by (simp add: validate_grid_data_def grid_violations_def validate_rows_scan first_of_simps)

lemma concat_enum_cells_empty:
  "concat (map (\<lambda>(c, x). cell_violation pt r c x) (enumerate c xs)) = []
     \<longleftrightarrow> list_all (cell_ok pt) xs"
  by (induction xs arbitrary: c) (simp_all add: cell_violation_empty_iff del: concat_eq_Nil_conv)

lemma row_violations_empty_iff:
  "row_violations pt columns r row = []
     \<longleftrightarrow> int (length row) = columns \<and> list_all (cell_ok pt) row"
  by (simp add: row_violations_def concat_enum_cells_empty del: concat_eq_Nil_conv)

lemma concat_enum_rows_empty:
  "concat (map (\<lambda>(r, row). row_violations pt columns r row) (enumerate r g)) = []
     \<longleftrightarrow> list_all (\<lambda>row. int (length row) = columns) g \<and> list_all (list_all (cell_ok pt)) g"
  by (induction g arbitrary: r)
     (auto simp add: row_violations_empty_iff simp del: concat_eq_Nil_conv)

lemma grid_violations_empty_iff:
  "grid_violations g rows columns pt = [] \<longleftrightarrow> grid_ok g rows columns pt"
  by (simp add: grid_violations_def grid_ok_def concat_enum_rows_empty
           del: concat_eq_Nil_conv)

text \<open>
  The error of a cell that breaks the cell-type rule names the row and the column of the
  cell; the error of a row of the wrong length names the row only.
\<close>

lemma cell_violation_position:
  assumes "\<not> cell_ok pt x"
  shows "\<exists>e. first_of (cell_violation pt r c x) = Some e
             \<and> error_row e = Some r \<and> error_column e = Some c"
  using assms
  by (auto simp: cell_violation_def cell_ok_def first_of_simps split: option.splits json.splits)

lemma first_of_cell_violation_ok: "cell_ok pt x \<Longrightarrow> first_of (cell_violation pt r c x) = None"
  using cell_violation_empty_iff [of pt r c x] by (simp add: first_of_simps)

lemma validate_cells_Cons:
  "validate_cells (map cell_type_value (VALID_CELL_TYPES pt)) pt r k (x # xs) =
     (case first_of (cell_violation pt r k x) of
        Some e \<Rightarrow> Some e
      | None \<Rightarrow> validate_cells (map cell_type_value (VALID_CELL_TYPES pt)) pt r (Suc k) xs)"
  by (simp add: first_of_cell_violation Let_def)

lemma validate_cells_first_bad:
  assumes "c < length xs" and "\<forall>c' < c. cell_ok pt (xs ! c')" and "\<not> cell_ok pt (xs ! c)"
  shows "validate_cells (map cell_type_value (VALID_CELL_TYPES pt)) pt r k xs =
           first_of (cell_violation pt r (k + c) (xs ! c))"
  using assms
proof (induction xs arbitrary: c k)
  case Nil
  then show ?case by simp
next
  case (Cons x xs)
  show ?case
  proof (cases c)
    case 0
    with Cons.prems(3) obtain e where "first_of (cell_violation pt r k x) = Some e"
      using cell_violation_position [of pt x r k] by auto
    with 0 show ?thesis by (simp only: validate_cells_Cons) simp
  next
    case (Suc c')
    from Cons.prems(2) Suc have ok: "cell_ok pt x" by auto
    have "c' < length xs" using Cons.prems(1) Suc by simp
    moreover have "\<forall>j < c'. cell_ok pt (xs ! j)"
      using Cons.prems(2) Suc by (metis Suc_mono nth_Cons_Suc)
    moreover have "\<not> cell_ok pt (xs ! c')" using Cons.prems(3) Suc by simp
    ultimately have "validate_cells (map cell_type_value (VALID_CELL_TYPES pt)) pt r (Suc k) xs =
        first_of (cell_violation pt r (Suc k + c') (xs ! c'))"
      by (rule Cons.IH)
    with ok Suc show ?thesis
      by (simp only: validate_cells_Cons first_of_cell_violation_ok) simp
  qed
qed

lemma validate_cells_all_ok:
  "list_all (cell_ok pt) xs
     \<Longrightarrow> validate_cells (map cell_type_value (VALID_CELL_TYPES pt)) pt r k xs = None"
proof -
  assume "list_all (cell_ok pt) xs"
  then have "concat (map (\<lambda>(c, x). cell_violation pt r c x) (enumerate k xs)) = []"
    by (simp only: concat_enum_cells_empty)
  then show ?thesis by (simp only: validate_cells_scan first_of_simps)
qed

lemma validate_rows_Cons:
  "validate_rows vals pt columns k (row # g) =
     (if int (length row) \<noteq> columns then Some (RowColumnCount k columns)
      else case validate_cells vals pt k 0 row of
          Some e \<Rightarrow> Some e
        | None \<Rightarrow> validate_rows vals pt columns (Suc k) g)"
  by simp

lemma validate_rows_skip:
  assumes "r < length g"
    and "\<forall>r' < r. int (length (g ! r')) = columns \<and> list_all (cell_ok pt) (g ! r')"
  shows "validate_rows (map cell_type_value (VALID_CELL_TYPES pt)) pt columns k g =
           validate_rows (map cell_type_value (VALID_CELL_TYPES pt)) pt columns (k + r) (drop r g)"
  using assms
proof (induction g arbitrary: r k)
  case Nil
  then show ?case by simp
next
  case (Cons row g)
  show ?case
  proof (cases r)
    case 0
    then show ?thesis by simp
  next
    case (Suc r')
    from Cons.prems(2) Suc have row: "int (length row) = columns" "list_all (cell_ok pt) row"
      by auto
    have "r' < length g" using Cons.prems(1) Suc by simp
    moreover have "\<forall>j < r'. int (length (g ! j)) = columns \<and> list_all (cell_ok pt) (g ! j)"
      using Cons.prems(2) Suc by (metis Suc_mono nth_Cons_Suc)
    ultimately have "validate_rows (map cell_type_value (VALID_CELL_TYPES pt)) pt columns (Suc k) g =
        validate_rows (map cell_type_value (VALID_CELL_TYPES pt)) pt columns (Suc k + r') (drop r' g)"
      by (rule Cons.IH)
    with row Suc show ?thesis
      by (simp only: validate_rows_Cons validate_cells_all_ok) simp
  qed
qed

lemma validate_rows_at:
  assumes "r < length g"
    and "\<forall>r' < r. int (length (g ! r')) = columns \<and> list_all (cell_ok pt) (g ! r')"
  shows "validate_rows (map cell_type_value (VALID_CELL_TYPES pt)) pt columns 0 g =
           (if int (length (g ! r)) \<noteq> columns then Some (RowColumnCount r columns)
            else case validate_cells (map cell_type_value (VALID_CELL_TYPES pt)) pt r 0 (g ! r) of
                Some e \<Rightarrow> Some e
              | None \<Rightarrow> validate_rows (map cell_type_value (VALID_CELL_TYPES pt)) pt columns
                          (Suc r) (drop (Suc r) g))"
proof -
  have d: "drop r g = g ! r # drop (Suc r) g"
    using assms(1) by (simp add: Cons_nth_drop_Suc)
  have s: "validate_rows (map cell_type_value (VALID_CELL_TYPES pt)) pt columns 0 g =
      validate_rows (map cell_type_value (VALID_CELL_TYPES pt)) pt columns r (drop r g)"
    using validate_rows_skip [OF assms, of 0] by simp
  show ?thesis unfolding s d by (rule validate_rows_Cons)
qed

lemma validate_grid_data_row_length:
  assumes "int (length g) = rows" and "r < length g"
    and "\<forall>r' < r. int (length (g ! r')) = columns \<and> list_all (cell_ok pt) (g ! r')"
    and "int (length (g ! r)) \<noteq> columns"
  shows "validate_grid_data g rows columns pt = Inl (RowColumnCount r columns)"
  using assms(1,4) by (simp add: validate_grid_data_def validate_rows_at [OF assms(2,3)])

lemma validate_grid_data_cell:
  assumes "int (length g) = rows" and "r < length g"
    and "\<forall>r' < r. int (length (g ! r')) = columns \<and> list_all (cell_ok pt) (g ! r')"
    and "int (length (g ! r)) = columns"
    and "c < length (g ! r)" and "\<forall>c' < c. cell_ok pt (g ! r ! c')"
    and "\<not> cell_ok pt (g ! r ! c)"
  shows "\<exists>e. validate_grid_data g rows columns pt = Inl e
             \<and> error_row e = Some r \<and> error_column e = Some c"
proof -
  obtain e where e: "first_of (cell_violation pt r c (g ! r ! c)) = Some e"
      "error_row e = Some r" "error_column e = Some c"
    using cell_violation_position [OF assms(7)] by blast
  have "validate_cells (map cell_type_value (VALID_CELL_TYPES pt)) pt r 0 (g ! r) = Some e"
    using validate_cells_first_bad [OF assms(5,6,7), of r 0] e(1) by simp
  then have "validate_grid_data g rows columns pt = Inl e"
    using assms(1,4) by (simp add: validate_grid_data_def validate_rows_at [OF assms(2,3)])
  with e show ?thesis by blast
qed

text \<open>
  C4. A grid with exactly \<open>rows\<close> rows of exactly \<open>columns\<close> cells, each cell with a
  non-empty \<open>cell_type\<close> that is one of the strings allowed for the plan type, passes
  \<open>validate_grid_data\<close>. Every other grid is refused with the first of its violations in
  scan order: the row count; then, row after row, the length of the row and its cells from
  left to right. What the error names depends on the violation. A wrong number of rows is
  reported without coordinates. The first row of the wrong length, when the rows before it
  are in order, is reported with its row index and no column. The first cell in row-major
  order that breaks the cell-type rule, when the rows up to its own have the right length,
  is reported with its row and column, so of two such cells only the earlier one is
  reported.
\<close>

theorem validate_grid_data_first_violation:
  "(grid_ok g rows columns pt \<longrightarrow> validate_grid_data g rows columns pt = Inr ())
   \<and> (\<not> grid_ok g rows columns pt \<longrightarrow>
        grid_violations g rows columns pt \<noteq> []
        \<and> validate_grid_data g rows columns pt = Inl (hd (grid_violations g rows columns pt)))
   \<and> (int (length g) \<noteq> rows \<longrightarrow> validate_grid_data g rows columns pt = Inl (GridRowCount rows))
   \<and> (int (length g) = rows \<and> r < length g
        \<and> (\<forall>r' < r. int (length (g ! r')) = columns \<and> list_all (cell_ok pt) (g ! r'))
        \<and> int (length (g ! r)) \<noteq> columns
      \<longrightarrow> validate_grid_data g rows columns pt = Inl (RowColumnCount r columns))
   \<and> (int (length g) = rows \<and> r < length g
        \<and> (\<forall>r' < r. int (length (g ! r')) = columns \<and> list_all (cell_ok pt) (g ! r'))
        \<and> int (length (g ! r)) = columns
        \<and> c < length (g ! r) \<and> (\<forall>c' < c. cell_ok pt (g ! r ! c')) \<and> \<not> cell_ok pt (g ! r ! c)
      \<longrightarrow> (\<exists>e. validate_grid_data g rows columns pt = Inl e
                \<and> error_row e = Some r \<and> error_column e = Some c))"
proof (intro conjI impI)
  assume "grid_ok g rows columns pt"
  then show "validate_grid_data g rows columns pt = Inr ()"
    using grid_violations_empty_iff [of g rows columns pt]
    by (simp add: validate_grid_data_scan first_of_simps)
next
  assume "\<not> grid_ok g rows columns pt"
  then show "grid_violations g rows columns pt \<noteq> []"
    using grid_violations_empty_iff [of g rows columns pt] by simp
next
  assume "\<not> grid_ok g rows columns pt"
  then show "validate_grid_data g rows columns pt = Inl (hd (grid_violations g rows columns pt))"
    using grid_violations_empty_iff [of g rows columns pt]
    by (cases "grid_violations g rows columns pt")
       (simp_all add: validate_grid_data_scan first_of_simps)
next
  assume "int (length g) \<noteq> rows"
  then show "validate_grid_data g rows columns pt = Inl (GridRowCount rows)"
    by (simp add: validate_grid_data_def)
next
  assume "int (length g) = rows \<and> r < length g
        \<and> (\<forall>r' < r. int (length (g ! r')) = columns \<and> list_all (cell_ok pt) (g ! r'))
        \<and> int (length (g ! r)) \<noteq> columns"
  then show "validate_grid_data g rows columns pt = Inl (RowColumnCount r columns)"
    using validate_grid_data_row_length [of g rows r columns pt] by blast
next
  assume "int (length g) = rows \<and> r < length g
        \<and> (\<forall>r' < r. int (length (g ! r')) = columns \<and> list_all (cell_ok pt) (g ! r'))
        \<and> int (length (g ! r)) = columns
        \<and> c < length (g ! r) \<and> (\<forall>c' < c. cell_ok pt (g ! r ! c')) \<and> \<not> cell_ok pt (g ! r ! c)"
  then show "\<exists>e. validate_grid_data g rows columns pt = Inl e
                \<and> error_row e = Some r \<and> error_column e = Some c"
    using validate_grid_data_cell [of g rows r columns pt c] by blast
qed

theorem validate_grid_data_first_violation_witness:
  "validate_grid_data ex_grid_valid 2 2 DESK_AREA = Inr ()
   \<and> validate_grid_data ex_grid_two_violations 2 2 DESK_AREA =
       Inl (InvalidCellType (JStr ''parking_slot'') DESK_AREA 0 1)
   \<and> validate_grid_data ex_grid_two_violations 2 2 PARKING =
       Inl (InvalidCellType (JStr ''desk'') PARKING 0 0)
   \<and> validate_grid_data ex_grid_valid 2 2 CAFETERIA =
       Inl (InvalidCellType (JStr ''desk'') CAFETERIA 0 0)
   \<and> validate_grid_data ex_grid_cafeteria 1 3 CAFETERIA =
       Inl (InvalidCellType (JArr [JStr ''path'']) CAFETERIA 0 1)
   \<and> validate_grid_data ex_grid_valid 3 2 DESK_AREA = Inl (GridRowCount 3)
   \<and> validate_grid_data ex_grid_valid 2 3 DESK_AREA = Inl (RowColumnCount 0 3)
   \<and> error_row (projl (validate_grid_data ex_grid_two_violations 2 2 CAFETERIA)) = Some 0
   \<and> error_column (projl (validate_grid_data ex_grid_two_violations 2 2 CAFETERIA)) = Some 0"
proof -
  have ok: "grid_ok ex_grid_valid 2 2 DESK_AREA"
    by (simp add: grid_ok_def ex_grid_valid_def cell_ok_def)
  have bad: "\<not> grid_ok ex_grid_two_violations 2 2 DESK_AREA"
    "\<not> grid_ok ex_grid_two_violations 2 2 PARKING"
    "\<not> grid_ok ex_grid_valid 2 2 CAFETERIA"
    "\<not> grid_ok ex_grid_cafeteria 1 3 CAFETERIA"
    by (simp_all add: grid_ok_def ex_grid_two_violations_def ex_grid_valid_def
          ex_grid_cafeteria_def cell_ok_def)
  have vs: "grid_violations ex_grid_two_violations 2 2 DESK_AREA =
       [InvalidCellType (JStr ''parking_slot'') DESK_AREA 0 1,
        InvalidCellType (JStr ''cafeteria_table'') DESK_AREA 1 0]"
    "grid_violations ex_grid_two_violations 2 2 PARKING =
       [InvalidCellType (JStr ''desk'') PARKING 0 0,
        InvalidCellType (JStr ''cafeteria_table'') PARKING 1 0]"
    "grid_violations ex_grid_valid 2 2 CAFETERIA = [InvalidCellType (JStr ''desk'') CAFETERIA 0 0]"
    "grid_violations ex_grid_cafeteria 1 3 CAFETERIA =
       [InvalidCellType (JArr [JStr ''path'']) CAFETERIA 0 1, MissingCellType 0 2]"
    by (simp_all add: grid_violations_def row_violations_def cell_violation_def
          ex_grid_two_violations_def ex_grid_valid_def ex_grid_cafeteria_def
          enumerate_eq_zip upt_rec image_iff)
  have shape: "int (length ex_grid_valid) \<noteq> 3" "int (length ex_grid_valid) = 2"
    "int (length (ex_grid_valid ! 0)) \<noteq> 3"
    "int (length ex_grid_two_violations) = 2"
    "int (length (ex_grid_two_violations ! 0)) = 2"
    "\<not> cell_ok CAFETERIA (ex_grid_two_violations ! 0 ! 0)"
    by (simp_all add: ex_grid_valid_def ex_grid_two_violations_def cell_ok_def)
  obtain e where e: "validate_grid_data ex_grid_two_violations 2 2 CAFETERIA = Inl e"
      "error_row e = Some 0" "error_column e = Some 0"
    using validate_grid_data_first_violation [of ex_grid_two_violations 2 2 CAFETERIA 0 0] shape
    by auto
  show ?thesis
    using ok bad vs shape(1,2,3) e
      validate_grid_data_first_violation [of ex_grid_valid 2 2 DESK_AREA 0 0]
      validate_grid_data_first_violation [of ex_grid_two_violations 2 2 DESK_AREA 0 0]
      validate_grid_data_first_violation [of ex_grid_two_violations 2 2 PARKING 0 0]
      validate_grid_data_first_violation [of ex_grid_valid 2 2 CAFETERIA 0 0]
      validate_grid_data_first_violation [of ex_grid_cafeteria 1 3 CAFETERIA 0 0]
      validate_grid_data_first_violation [of ex_grid_valid 3 2 DESK_AREA 0 0]
      validate_grid_data_first_violation [of ex_grid_valid 2 3 DESK_AREA 0 0]
    by simp
qed

text \<open>
  The claim as it was worded has every violation reported with its row and column. A grid
  with too few rows, and a row with too few cells, are refused with errors that name no
  cell: the first carries no coordinates at all, the second a row index and no column.
\<close>

theorem validate_grid_data_row_count_counterexample:
  "validate_grid_data [] 1 1 DESK_AREA = Inl (GridRowCount 1)
   \<and> error_row (GridRowCount 1) = None \<and> error_column (GridRowCount 1) = None
   \<and> validate_grid_data [[[(''cell_type'', JStr ''desk'')]]] 1 2 DESK_AREA = Inl (RowColumnCount 0 2)
   \<and> error_column (RowColumnCount 0 2) = None"
  by (simp add: validate_grid_data_def)

section \<open>Versions of a floor plan\<close>

lemma create_version_no_success:
  "\<exists>e. create_version db floor_plan_id version_data created_by = (Inl e, db)"
  by (simp add: create_version_def split: sum.splits option.splits)

lemma create_floor_plan_no_success:
  "\<exists>e. create_floor_plan db floor_plan_data created_by = (Inl e, db)"
  by (simp add: create_floor_plan_def split: sum.splits option.splits)

text \<open>
  C3. No call of \<open>create_version\<close> assigns a version number. A call that finds its floor
  plan, is made by a user who may manage the plan type, and brings a valid grid ends in
  \<open>TypeError\<close>, raised where the next number is computed or where the version row is built
  with the keyword \<open>created_by_id\<close>, which \<open>FloorPlanVersion\<close> does not have; every other
  call returns its error message. In both cases the database is left as it was, so
  \<open>get_latest_version\<close> answers after the call what it answered before. The same holds for
  \<open>create_floor_plan\<close>, which would write version 1.
\<close>

theorem create_version_assigns_no_number:
  "(get_floor_plan_by_id db floor_plan_id = Inr (Some floor_plan)
      \<and> can_manage_plan_type created_by (fp_plan_type floor_plan)
      \<and> validate_grid_data (fvc_grid_data version_data) (fp_rows floor_plan)
            (fp_columns floor_plan) (fp_plan_type floor_plan) = Inr ()
    \<longrightarrow> create_version db floor_plan_id version_data created_by = (Inl (Raised TypeError), db))
   \<and> (\<exists>e. create_version db floor_plan_id version_data created_by = (Inl e, db))
   \<and> get_latest_version (snd (create_version db floor_plan_id version_data created_by)) floor_plan_id
       = get_latest_version db floor_plan_id
   \<and> (can_manage_plan_type created_by (fpc_plan_type floor_plan_data)
      \<and> (\<forall>fp \<in> set (floor_plans db). fp_name fp = fpc_name floor_plan_data
              \<longrightarrow> fp_plan_type fp \<noteq> fpc_plan_type floor_plan_data)
      \<and> validate_grid_data (fpc_grid_data floor_plan_data) (fpc_rows floor_plan_data)
            (fpc_columns floor_plan_data) (fpc_plan_type floor_plan_data) = Inr ()
    \<longrightarrow> create_floor_plan db floor_plan_data created_by = (Inl (Raised TypeError), db))
   \<and> (\<exists>e. create_floor_plan db floor_plan_data created_by = (Inl e, db))"
proof (intro conjI impI)
  assume "get_floor_plan_by_id db floor_plan_id = Inr (Some floor_plan)
      \<and> can_manage_plan_type created_by (fp_plan_type floor_plan)
      \<and> validate_grid_data (fvc_grid_data version_data) (fp_rows floor_plan)
            (fp_columns floor_plan) (fp_plan_type floor_plan) = Inr ()"
  then show "create_version db floor_plan_id version_data created_by = (Inl (Raised TypeError), db)"
    by (simp add: create_version_def split: option.splits)
next
  show "\<exists>e. create_version db floor_plan_id version_data created_by = (Inl e, db)"
    by (rule create_version_no_success)
next
  show "get_latest_version (snd (create_version db floor_plan_id version_data created_by)) floor_plan_id
       = get_latest_version db floor_plan_id"
    using create_version_no_success [of db floor_plan_id version_data created_by] by auto
next
  assume a: "can_manage_plan_type created_by (fpc_plan_type floor_plan_data)
      \<and> (\<forall>fp \<in> set (floor_plans db). fp_name fp = fpc_name floor_plan_data
              \<longrightarrow> fp_plan_type fp \<noteq> fpc_plan_type floor_plan_data)
      \<and> validate_grid_data (fpc_grid_data floor_plan_data) (fpc_rows floor_plan_data)
            (fpc_columns floor_plan_data) (fpc_plan_type floor_plan_data) = Inr ()"
  then have "filter (\<lambda>fp. fp_name fp = fpc_name floor_plan_data
                          \<and> fp_plan_type fp = fpc_plan_type floor_plan_data) (floor_plans db) = []"
    by (auto simp: filter_empty_conv)
  with a show "create_floor_plan db floor_plan_data created_by = (Inl (Raised TypeError), db)"
    by (simp add: create_floor_plan_def)
next
  show "\<exists>e. create_floor_plan db floor_plan_data created_by = (Inl e, db)"
    by (rule create_floor_plan_no_success)
qed

theorem create_version_assigns_no_number_witness:
  "create_version ex_desk_plan_db 1 ex_version_data (ex_user 2 ADMIN None)
     = (Inl (Raised TypeError), ex_desk_plan_db)
   \<and> create_version ex_desk_plan_db 1 ex_version_data (ex_user 3 MANAGER (Some MT_DESK_CONFERENCE))
     = (Inl (Raised TypeError), ex_desk_plan_db)
   \<and> get_latest_version ex_desk_plan_db 1 = Inr (Some (ex_version 1 1 ex_desk_grid))
   \<and> create_floor_plan empty_db ex_plan_data (ex_user 2 ADMIN None)
     = (Inl (Raised TypeError), empty_db)"
proof -
  have fp: "get_floor_plan_by_id ex_desk_plan_db 1 = Inr (Some (ex_floor_plan 1 DESK_AREA 2 2 1))"
    by (simp add: get_floor_plan_by_id_def ex_desk_plan_db_def empty_db_def ex_floor_plan_def)
  have f: "fp_plan_type (ex_floor_plan 1 DESK_AREA 2 2 1) = DESK_AREA"
    "fp_rows (ex_floor_plan 1 DESK_AREA 2 2 1) = 2" "fp_columns (ex_floor_plan 1 DESK_AREA 2 2 1) = 2"
    by (simp_all add: ex_floor_plan_def)
  have m: "can_manage_plan_type (ex_user 2 ADMIN None) DESK_AREA"
    "can_manage_plan_type (ex_user 3 MANAGER (Some MT_DESK_CONFERENCE)) DESK_AREA"
    by (simp_all add: can_manage_plan_type_def ex_user_def)
  have v: "validate_grid_data ex_grid_valid 2 2 DESK_AREA = Inr ()"
    by (simp add: validate_grid_data_def ex_grid_valid_def py_get_def)
  have d: "fvc_grid_data ex_version_data = ex_grid_valid"
    "fpc_grid_data ex_plan_data = ex_grid_valid" "fpc_plan_type ex_plan_data = DESK_AREA"
    "fpc_rows ex_plan_data = 2" "fpc_columns ex_plan_data = 2" "floor_plans empty_db = []"
    by (simp_all add: ex_version_data_def ex_plan_data_def empty_db_def)
  have l: "get_latest_version ex_desk_plan_db 1 = Inr (Some (ex_version 1 1 ex_desk_grid))"
    by (simp add: get_latest_version_def ex_desk_plan_db_def empty_db_def ex_version_def)
  show ?thesis
    using fp f m v d l
      create_version_assigns_no_number
        [of ex_desk_plan_db 1 "ex_floor_plan 1 DESK_AREA 2 2 1" "ex_user 2 ADMIN None"
            ex_version_data ex_plan_data]
      create_version_assigns_no_number
        [of ex_desk_plan_db 1 "ex_floor_plan 1 DESK_AREA 2 2 1"
            "ex_user 3 MANAGER (Some MT_DESK_CONFERENCE)" ex_version_data ex_plan_data]
      create_version_assigns_no_number
        [of empty_db 1 "ex_floor_plan 1 DESK_AREA 2 2 1" "ex_user 2 ADMIN None"
            ex_version_data ex_plan_data]
    by simp
qed

section \<open>Cell coordinates\<close>

lemma get_latest_version_ex: "get_latest_version ex_desk_plan_db 1 = Inr (Some (ex_version 1 1 ex_desk_grid))"
  by (simp add: get_latest_version_def ex_desk_plan_db_def empty_db_def ex_version_def)

lemma py_index_negative:
  "i < 0 \<Longrightarrow> - i \<le> int (length xs) \<Longrightarrow> py_index xs i = Inr (xs ! nat (int (length xs) + i))"
  by (simp add: py_index_def)

lemma py_index_zero: "xs \<noteq> [] \<Longrightarrow> py_index xs 0 = Inr (xs ! 0)"
  by (simp add: py_index_def)

text \<open>
  C7. \<open>validate_desk_cell\<close> does not check that the coordinates are non-negative before it
  indexes the grid. A row index \<open>r\<close> and a column index \<open>c\<close> that are negative, but not below
  minus the number of rows and of columns, pass the bounds test, and \<open>grid_data[r][c]\<close>
  reads the cell counted from the end of the grid: the answer is the verdict on that cell
  (not a desk, not active, or valid), never the out-of-bounds error.
\<close>

theorem validate_desk_cell_negative_index:
  assumes "get_latest_version db fid = Inr (Some version)"
    and "py_int cell_row = Inr r" and "py_int cell_column = Inr c"
    and "r < 0" and "- r \<le> int (length (fpv_grid_data version))"
    and "c < 0" and "\<forall>row \<in> set (fpv_grid_data version). - c \<le> int (length row)"
  shows "validate_desk_cell db fid cell_row cell_column =
           (let row = fpv_grid_data version ! nat (int (length (fpv_grid_data version)) + r);
                x = row ! nat (int (length row) + c)
            in if \<not> json_eq_str (py_get x ''cell_type'') ''desk'' then Inl CellNotDesk
               else if \<not> truthy (py_get_default x ''is_active'' (JBool True)) then Inl DeskNotActive
               else Inr (fpv_version version))"
proof -
  let ?g = "fpv_grid_data version"
  let ?row = "?g ! nat (int (length ?g) + r)"
  have ne: "?g \<noteq> []" using assms(4,5) by auto
  have in_g: "?row \<in> set ?g" using assms(4,5) by (intro nth_mem) linarith
  have r0: "?g ! 0 \<in> set ?g" using ne by simp
  have c_row: "- c \<le> int (length ?row)" using assms(7) in_g by blast
  have c0: "\<not> int (length (?g ! 0)) \<le> c" using assms(6) by simp
  have nr: "\<not> int (length ?g) \<le> r" using assms(4) by simp
  show ?thesis
    using assms(1,2,3) nr c0
    by (simp add: validate_desk_cell_def py_index_zero [OF ne]
          py_index_negative [OF assms(4,5)] py_index_negative [OF assms(6) c_row] Let_def)
qed

theorem validate_desk_cell_negative_index_witness:
  "validate_desk_cell ex_desk_plan_db 1 ''-1'' ''-1'' = Inr 1
   \<and> validate_desk_cell ex_desk_plan_db 1 ''-1'' ''-2'' = Inl CellNotDesk"
proof -
  have p: "py_int ''-1'' = Inr (- 1)" "py_int ''-2'' = Inr (- 2)" by code_simp code_simp
  have g: "fpv_grid_data (ex_version 1 1 ex_desk_grid) = ex_desk_grid"
    "fpv_version (ex_version 1 1 ex_desk_grid) = 1"
    by (simp_all add: ex_version_def)
  have l: "length ex_desk_grid = 2" "\<forall>row \<in> set ex_desk_grid. length row = 2"
    by (simp_all add: ex_desk_grid_def)
  have a: "validate_desk_cell ex_desk_plan_db 1 ''-1'' ''-1'' = Inr 1"
    using validate_desk_cell_negative_index [OF get_latest_version_ex p(1) p(1)] g l
    by (simp add: ex_desk_grid_def py_get_def py_get_default_def)
  have b: "validate_desk_cell ex_desk_plan_db 1 ''-1'' ''-2'' = Inl CellNotDesk"
    using validate_desk_cell_negative_index [OF get_latest_version_ex p(1) p(2)] g l
    by (simp add: ex_desk_grid_def py_get_def py_get_default_def)
  from a b show ?thesis by simp
qed

section \<open>Bookings\<close>

lemma scalar_one_or_none_two: "2 \<le> length xs \<Longrightarrow> scalar_one_or_none xs = Inl (Raised MultipleResultsFound)"
  by (cases xs rule: scalar_one_or_none.cases) auto

text \<open>
  C1. Neither \<open>check_booking_overlap\<close> returns true whenever an active booking of the
  resource and date overlaps the candidate interval. The desk service's raises
  \<open>AttributeError\<close> on every call, because its query names the columns \<open>floor_plan_id\<close> and
  \<open>desk_label\<close>, which \<open>DeskBooking\<close> does not have. The cafeteria service's raises
  \<open>MultipleResultsFound\<close> from \<open>scalar_one_or_none\<close> when two or more bookings satisfy its
  query; the candidate 9:30 to 10:30 against the bookings 9:00 to 10:00 and 10:00 to 11:00
  is such a query. (The three disjuncts of the cafeteria query do agree with the rule
  \<open>s < end \<and> start < e\<close> on intervals that are not empty, and the method does return the
  answer of that rule when at most one booking satisfies it: see the lemmas after the
  theorem.)
\<close>

theorem check_booking_overlap_many_rows:
  "desk_check_booking_overlap db fid label d start_time end_time exclude_booking_id
      = Inl (Raised AttributeError)
   \<and> (2 \<le> length (filter (cafeteria_overlap_where fid label d start_time end_time)
                     (cafeteria_table_bookings db))
      \<longrightarrow> cafeteria_check_booking_overlap db fid label d start_time end_time None
            = Inl (Raised MultipleResultsFound))"
  by (simp add: desk_check_booking_overlap_def cafeteria_check_booking_overlap_def
        scalar_one_or_none_two)

theorem check_booking_overlap_many_rows_witness:
  "desk_check_booking_overlap ex_bookings_db 1 ''D1'' 100 (hm 9 30) (hm 10 30) None
     = Inl (Raised AttributeError)
   \<and> desk_check_booking_overlap empty_db 1 ''D1'' 100 (hm 9 30) (hm 10 30) None
     = Inl (Raised AttributeError)
   \<and> cafeteria_check_booking_overlap ex_bookings_db 2 ''T1'' 100 (hm 9 30) (hm 10 30) None
     = Inl (Raised MultipleResultsFound)"
proof -
  have c: "2 \<le> length (filter (cafeteria_overlap_where 2 ''T1'' 100 (hm 9 30) (hm 10 30))
                  (cafeteria_table_bookings ex_bookings_db))"
    by (simp add: cafeteria_overlap_where_def ex_bookings_db_def ex_table_booking_def hm_def empty_db_def)
  show ?thesis
    using c check_booking_overlap_many_rows [of ex_bookings_db 1 "''D1''" 100 "hm 9 30" "hm 10 30" None]
      check_booking_overlap_many_rows [of empty_db 1 "''D1''" 100 "hm 9 30" "hm 10 30" None]
      check_booking_overlap_many_rows [of ex_bookings_db 2 "''T1''" 100 "hm 9 30" "hm 10 30" None]
    by simp
qed

text \<open>
  On intervals with \<open>start < end\<close> the three disjuncts of the cafeteria query say that the
  intervals overlap; the answer of the method is the one the rule gives as long as at most
  one row satisfies the query.
\<close>

lemma cafeteria_overlap_where_canonical:
  assumes "cbk_start_time b < cbk_end_time b" "start_time < end_time"
  shows "cafeteria_overlap_where fid label d start_time end_time b \<longleftrightarrow>
           cbk_floor_plan_id b = fid \<and> cbk_table_label b = label \<and> cbk_booking_date b = d
           \<and> (cbk_status b = Some PENDING \<or> cbk_status b = Some CONFIRMED)
           \<and> cbk_start_time b < end_time \<and> start_time < cbk_end_time b"
  using assms unfolding cafeteria_overlap_where_def by auto

lemma scalar_one_or_none_short:
  "length xs \<le> 1 \<Longrightarrow> scalar_one_or_none xs = Inr (if xs = [] then None else Some (hd xs))"
  by (cases xs rule: scalar_one_or_none.cases) auto

lemma cafeteria_check_booking_overlap_at_most_one:
  assumes "length (filter (cafeteria_overlap_where fid label d start_time end_time)
                     (cafeteria_table_bookings db)) \<le> 1"
  shows "cafeteria_check_booking_overlap db fid label d start_time end_time None
           = Inr (\<exists>b \<in> set (cafeteria_table_bookings db).
                    cafeteria_overlap_where fid label d start_time end_time b)"
  using assms
  by (auto simp: cafeteria_check_booking_overlap_def scalar_one_or_none_short filter_empty_conv)

lemma filter_id_distinct:
  "distinct (map f xs) \<Longrightarrow> b \<in> set xs \<Longrightarrow> filter (\<lambda>x. f x = f b) xs = [b]"
proof (induction xs)
  case Nil
  then show ?case by simp
next
  case (Cons x xs)
  show ?case
  proof (cases "x = b")
    case True
    with Cons.prems have "filter (\<lambda>x. f x = f b) xs = []"
      by (auto simp: filter_empty_conv image_iff)
    with True show ?thesis by simp
  next
    case False
    with Cons show ?thesis by (auto simp: image_iff)
  qed
qed

lemma desk_get_booking_by_id_found:
  "distinct (map dbk_id (desk_bookings db)) \<Longrightarrow> b \<in> set (desk_bookings db)
     \<Longrightarrow> desk_get_booking_by_id db (dbk_id b) = Inr (Some b)"
  by (simp add: desk_get_booking_by_id_def filter_id_distinct)

lemma cafeteria_get_booking_by_id_found:
  "distinct (map cbk_id (cafeteria_table_bookings db)) \<Longrightarrow> b \<in> set (cafeteria_table_bookings db)
     \<Longrightarrow> cafeteria_get_booking_by_id db (cbk_id b) = Inr (Some b)"
  by (simp add: cafeteria_get_booking_by_id_def filter_id_distinct)

lemma scalar_one_or_none_error:
  "scalar_one_or_none xs = Inl e \<Longrightarrow> e = Raised MultipleResultsFound"
  by (cases xs rule: scalar_one_or_none.cases) auto

lemma desk_update_booking_no_change:
  "snd (desk_update_booking db booking_id booking_data user) = db
   \<and> fst (desk_update_booking db booking_id booking_data user) \<noteq> Inl CannotModifyOthersBooking"
  by (auto simp: desk_update_booking_def desk_get_booking_by_id_def
        split: sum.splits option.splits dest: scalar_one_or_none_error)

lemma desk_cancel_booking_no_change:
  "snd (desk_cancel_booking db booking_id user) = db
   \<and> fst (desk_cancel_booking db booking_id user) \<noteq> Inl CannotCancelOthersBooking"
  by (auto simp: desk_cancel_booking_def desk_get_booking_by_id_def
        split: sum.splits option.splits dest: scalar_one_or_none_error)

text \<open>
  C10. \<open>update_booking\<close> and \<open>cancel_booking\<close> of the desk service do leave a booking as it
  was, but they do not answer with the ownership error. For every booking that exists,
  and every user, whoever owns the booking, the comparison \<open>str(booking.user_id) !=
  str(user.id)\<close> raises \<open>AttributeError\<close>, since a booking carries the owner's \<open>user_code\<close>
  and has no \<open>user_id\<close>. On no input at all do the methods return their ownership error
  or change the database.
\<close>

theorem desk_booking_ownership_check_raises:
  "(distinct (map dbk_id (desk_bookings db)) \<and> b \<in> set (desk_bookings db)
    \<longrightarrow> desk_update_booking db (dbk_id b) booking_data user = (Inl (Raised AttributeError), db)
        \<and> desk_cancel_booking db (dbk_id b) user = (Inl (Raised AttributeError), db))
   \<and> snd (desk_update_booking db booking_id booking_data user) = db
   \<and> fst (desk_update_booking db booking_id booking_data user) \<noteq> Inl CannotModifyOthersBooking
   \<and> snd (desk_cancel_booking db booking_id user) = db
   \<and> fst (desk_cancel_booking db booking_id user) \<noteq> Inl CannotCancelOthersBooking"
  using desk_update_booking_no_change [of db booking_id booking_data user]
    desk_cancel_booking_no_change [of db booking_id user]
  by (simp add: desk_update_booking_def desk_cancel_booking_def desk_get_booking_by_id_found)

theorem desk_booking_ownership_check_raises_witness:
  "desk_update_booking ex_bookings_db 2
       \<lparr> dbu_start_time = Some (hm 16 0), dbu_end_time = Some (hm 17 0), dbu_notes = Some ''x'' \<rparr>
       (ex_user 5 EMPLOYEE None)
     = (Inl (Raised AttributeError), ex_bookings_db)
   \<and> desk_cancel_booking ex_bookings_db 2 (ex_user 5 EMPLOYEE None)
     = (Inl (Raised AttributeError), ex_bookings_db)
   \<and> desk_cancel_booking ex_bookings_db 2 (ex_user 6 EMPLOYEE None)
     = (Inl (Raised AttributeError), ex_bookings_db)"
proof -
  have d: "distinct (map dbk_id (desk_bookings ex_bookings_db))"
    by (simp add: ex_bookings_db_def ex_desk_booking_def)
  have m: "ex_desk_booking 2 ''EMP006'' (hm 10 0) (hm 11 0) CONFIRMED \<in> set (desk_bookings ex_bookings_db)"
    by (simp add: ex_bookings_db_def)
  have i: "dbk_id (ex_desk_booking 2 ''EMP006'' (hm 10 0) (hm 11 0) CONFIRMED) = 2"
    by (simp add: ex_desk_booking_def)
  show ?thesis
    using d m
      desk_booking_ownership_check_raises
        [of ex_bookings_db "ex_desk_booking 2 ''EMP006'' (hm 10 0) (hm 11 0) CONFIRMED"
            "\<lparr> dbu_start_time = Some (hm 16 0), dbu_end_time = Some (hm 17 0), dbu_notes = Some ''x'' \<rparr>"
            "ex_user 5 EMPLOYEE None" 2]
      desk_booking_ownership_check_raises
        [of ex_bookings_db "ex_desk_booking 2 ''EMP006'' (hm 10 0) (hm 11 0) CONFIRMED"
            "\<lparr> dbu_start_time = Some (hm 16 0), dbu_end_time = Some (hm 17 0), dbu_notes = Some ''x'' \<rparr>"
            "ex_user 6 EMPLOYEE None" 2]
    unfolding i by simp
qed

text \<open>
  C6. Neither \<open>cancel_booking\<close> rejects the cancellation of a booking that is already
  cancelled or completed with an invalid-state error. The cafeteria service's never reads
  the status of the booking: for its owner it succeeds on every booking and sets the
  status to \<open>CANCELLED\<close>, so a cancelled booking is cancelled again without an error, and
  a completed booking leaves its terminal state and becomes cancelled. The desk service's
  does not read the status either; it ends in \<open>AttributeError\<close> for every booking that
  exists, at the ownership check, with the booking unchanged.
\<close>

theorem cancel_booking_ignores_status:
  "(distinct (map dbk_id (desk_bookings db)) \<and> b \<in> set (desk_bookings db)
    \<longrightarrow> desk_cancel_booking db (dbk_id b) user = (Inl (Raised AttributeError), db))
   \<and> (distinct (map cbk_id (cafeteria_table_bookings db)) \<and> t \<in> set (cafeteria_table_bookings db)
      \<and> cbk_user_id t = user_id user
    \<longrightarrow> cafeteria_cancel_booking db (cbk_id t) user =
          (Inr (), db\<lparr> cafeteria_table_bookings :=
                        map (\<lambda>x. if cbk_id x = cbk_id t then t\<lparr> cbk_status := Some CANCELLED \<rparr> else x)
                            (cafeteria_table_bookings db) \<rparr>))"
  by (simp add: desk_cancel_booking_def cafeteria_cancel_booking_def
        desk_get_booking_by_id_found cafeteria_get_booking_by_id_found)

theorem cancel_booking_ignores_status_witness:
  "desk_cancel_booking ex_bookings_db 3 (ex_user 5 EMPLOYEE None)
     = (Inl (Raised AttributeError), ex_bookings_db)
   \<and> desk_cancel_booking ex_bookings_db 4 (ex_user 5 EMPLOYEE None)
     = (Inl (Raised AttributeError), ex_bookings_db)
   \<and> cafeteria_cancel_booking ex_bookings_db 3 (ex_user 5 EMPLOYEE None) = (Inr (), ex_bookings_db)
   \<and> fst (cafeteria_cancel_booking ex_bookings_db 4 (ex_user 5 EMPLOYEE None)) = Inr ()
   \<and> map cbk_status (cafeteria_table_bookings
          (snd (cafeteria_cancel_booking ex_bookings_db 4 (ex_user 5 EMPLOYEE None))))
       = [Some CONFIRMED, Some CONFIRMED, Some CANCELLED, Some CANCELLED]"
proof -
  have d: "distinct (map dbk_id (desk_bookings ex_bookings_db))"
    "distinct (map cbk_id (cafeteria_table_bookings ex_bookings_db))"
    by (simp_all add: ex_bookings_db_def ex_desk_booking_def ex_table_booking_def)
  have m: "ex_desk_booking 3 ''EMP005'' (hm 12 0) (hm 13 0) CANCELLED \<in> set (desk_bookings ex_bookings_db)"
    "ex_desk_booking 4 ''EMP005'' (hm 14 0) (hm 15 0) COMPLETED \<in> set (desk_bookings ex_bookings_db)"
    "ex_table_booking 3 5 (hm 12 0) (hm 13 0) CANCELLED \<in> set (cafeteria_table_bookings ex_bookings_db)"
    "ex_table_booking 4 5 (hm 14 0) (hm 15 0) COMPLETED \<in> set (cafeteria_table_bookings ex_bookings_db)"
    by (simp_all add: ex_bookings_db_def)
  show ?thesis
    using cancel_booking_ignores_status
        [of ex_bookings_db "ex_desk_booking 3 ''EMP005'' (hm 12 0) (hm 13 0) CANCELLED" "ex_user 5 EMPLOYEE None"
            "ex_table_booking 3 5 (hm 12 0) (hm 13 0) CANCELLED"]
      cancel_booking_ignores_status
        [of ex_bookings_db "ex_desk_booking 4 ''EMP005'' (hm 14 0) (hm 15 0) COMPLETED" "ex_user 5 EMPLOYEE None"
            "ex_table_booking 4 5 (hm 14 0) (hm 15 0) COMPLETED"]
      d m
    by (simp add: ex_desk_booking_def ex_table_booking_def ex_user_def ex_bookings_db_def empty_db_def)
qed

section \<open>Parking\<close>

lemma py_strip_Nil: "py_strip [] = []"
  by (simp add: py_strip_def)

lemma get_available_slots_no_slot:
  "get_available_slots db floor_plan_id = Inr slots \<Longrightarrow> slots = []"
  by (auto simp: get_available_slots_def split: sum.splits option.splits if_splits)

lemma assign_visitor_slot_no_success:
  "\<exists>e. assign_visitor_slot db visitor_data assigned_by = (Inl e, db)"
  by (simp add: assign_visitor_slot_def)

text \<open>
  C9. The available-slot scan never visits a grid. For a parking floor plan that has a
  version, \<open>get_available_slots\<close> raises \<open>AttributeError\<close> where it builds the query for the
  occupied labels, because \<open>ParkingAllocation\<close> has no \<open>slot_label\<close> and no
  \<open>floor_plan_id\<close>; for every other floor plan it returns the empty list, so it returns no
  slot on any input. \<open>assign_visitor_slot\<close> does not get as far as the scan: once the
  caller, the visitor's name and phone number and the parking floor plans have passed
  its checks, it raises \<open>AttributeError\<close> on \<open>visitor_data.floor_plan_id\<close>, which the
  request schema does not have. It assigns a slot on no input and leaves the database as
  it was.
\<close>

theorem auto_assignment_never_reached:
  "(get_floor_plan_by_id db floor_plan_id = Inr (Some floor_plan)
      \<and> fp_plan_type floor_plan = PARKING
      \<and> get_latest_version db floor_plan_id = Inr (Some version)
    \<longrightarrow> get_available_slots db floor_plan_id = Inl (Raised AttributeError))
   \<and> (get_available_slots db floor_plan_id = Inr slots \<longrightarrow> slots = [])
   \<and> (can_manage_parking assigned_by
      \<and> 2 \<le> length (py_strip (vpc_visitor_name visitor_data))
      \<and> (case vpc_visitor_phone visitor_data of
            None \<Rightarrow> True
          | Some phone \<Rightarrow> phone = [] \<or> phone_pattern_match phone)
      \<and> get_parking_floor_plans db \<noteq> {}
    \<longrightarrow> assign_visitor_slot db visitor_data assigned_by = (Inl (Raised AttributeError), db))
   \<and> (\<exists>e. assign_visitor_slot db visitor_data assigned_by = (Inl e, db))"
proof (intro conjI impI)
  assume "get_floor_plan_by_id db floor_plan_id = Inr (Some floor_plan)
      \<and> fp_plan_type floor_plan = PARKING
      \<and> get_latest_version db floor_plan_id = Inr (Some version)"
  then show "get_available_slots db floor_plan_id = Inl (Raised AttributeError)"
    by (simp add: get_available_slots_def)
next
  assume "get_available_slots db floor_plan_id = Inr slots"
  then show "slots = []" by (rule get_available_slots_no_slot)
next
  assume a: "can_manage_parking assigned_by
      \<and> 2 \<le> length (py_strip (vpc_visitor_name visitor_data))
      \<and> (case vpc_visitor_phone visitor_data of
            None \<Rightarrow> True
          | Some phone \<Rightarrow> phone = [] \<or> phone_pattern_match phone)
      \<and> get_parking_floor_plans db \<noteq> {}"
  then have "vpc_visitor_name visitor_data \<noteq> []"
    using py_strip_Nil by auto
  with a show "assign_visitor_slot db visitor_data assigned_by = (Inl (Raised AttributeError), db)"
    by (auto simp: assign_visitor_slot_def split: option.splits)
next
  show "\<exists>e. assign_visitor_slot db visitor_data assigned_by = (Inl e, db)"
    by (rule assign_visitor_slot_no_success)
qed

lemma ex_visitor_name: "py_strip (vpc_visitor_name ex_visitor) = ''Vi Sitor''"
  by (simp add: ex_visitor_def py_strip_def is_space_def)

lemma ex_visitor_phone: "vpc_visitor_phone ex_visitor = Some ''+49 30 1234-5678''"
  by (simp add: ex_visitor_def)

lemma ex_phone_match: "phone_pattern_match ''+49 30 1234-5678''"
  by code_simp

theorem auto_assignment_never_reached_witness:
  "get_available_slots ex_parking_db 3 = Inl (Raised AttributeError)
   \<and> get_available_slots ex_parking_db 4 = Inr []
   \<and> get_available_slots ex_desk_plan_db 1 = Inr []
   \<and> assign_visitor_slot ex_parking_db ex_visitor (ex_user 1 MANAGER (Some MT_PARKING))
       = (Inl (Raised AttributeError), ex_parking_db)"
proof -
  have fp: "get_floor_plan_by_id ex_parking_db 3 = Inr (Some (ex_floor_plan 3 PARKING 3 3 1))"
    by (simp add: get_floor_plan_by_id_def ex_parking_db_def empty_db_def ex_floor_plan_def)
  have t: "fp_plan_type (ex_floor_plan 3 PARKING 3 3 1) = PARKING"
    by (simp add: ex_floor_plan_def)
  have v: "get_latest_version ex_parking_db 3 = Inr (Some (ex_version 3 1 ex_parking_grid))"
    by (simp add: get_latest_version_def ex_parking_db_def empty_db_def ex_version_def)
  have other: "get_available_slots ex_parking_db 4 = Inr []"
    "get_available_slots ex_desk_plan_db 1 = Inr []"
    by (simp_all add: get_available_slots_def get_floor_plan_by_id_def ex_parking_db_def
          ex_desk_plan_db_def empty_db_def ex_floor_plan_def)
  have m: "can_manage_parking (ex_user 1 MANAGER (Some MT_PARKING))"
    by (simp add: can_manage_parking_def ex_user_def)
  have p: "get_parking_floor_plans ex_parking_db \<noteq> {}"
    by (simp add: get_parking_floor_plans_def ex_parking_db_def empty_db_def ex_floor_plan_def)
  show ?thesis
    using fp t v other m p ex_visitor_name ex_visitor_phone ex_phone_match
      auto_assignment_never_reached
        [of ex_parking_db 3 "ex_floor_plan 3 PARKING 3 3 1" "ex_version 3 1 ex_parking_grid"
            "[]" "ex_user 1 MANAGER (Some MT_PARKING)" ex_visitor]
    by simp
qed

text \<open>
  C5. The guards of \<open>record_entry\<close> and \<open>record_exit\<close> answer as the claim says: a second
  entry, an exit without an entry and a second exit are refused with their messages, a
  visitor's exit needs a user who may manage parking, an employee's exit does not, and in
  each of these cases the database is left as it was. The exit itself fails. For an
  allocation with an entry time and no exit time, and a user who passes the visitor
  check, \<open>record_exit\<close> raises \<open>AttributeError\<close> where it builds the history row from
  \<open>allocation.floor_plan_id\<close>, which an allocation does not have. Nothing has been
  committed by then: no history row is written, no duration is stored, and in the
  database the allocation keeps \<open>exit_time\<close> unset and \<open>is_active\<close> true.
\<close>

theorem record_exit_writes_no_history:
  assumes "get_allocation_by_id db allocation_id = Inr (Some allocation)"
  shows "(pa_entry_time allocation \<noteq> None
            \<longrightarrow> record_entry db allocation_id timestamp now = (Inl EntryAlreadyRecorded, db))
       \<and> (pa_parking_type allocation = PT_VISITOR \<and> \<not> can_manage_parking recorded_by
            \<longrightarrow> record_exit db allocation_id recorded_by timestamp = (Inl OnlyAdminVisitorExit, db))
       \<and> (pa_parking_type allocation = PT_EMPLOYEE \<or> can_manage_parking recorded_by
            \<longrightarrow> record_exit db allocation_id recorded_by timestamp =
                  (if pa_entry_time allocation = None then (Inl NoEntryRecorded, db)
                   else if pa_exit_time allocation \<noteq> None then (Inl ExitAlreadyRecorded, db)
                   else (Inl (Raised AttributeError), db)))"
  using assms by (auto simp: record_entry_def record_exit_def)

lemma get_allocation_ex:
  "get_allocation_by_id ex_held_db 1 =
     Inr (Some (ex_allocation 1 11 PT_EMPLOYEE (Some ''EMP007'') True (Some 90000000) None))"
  "get_allocation_by_id ex_held_db 2 =
     Inr (Some (ex_allocation 2 12 PT_VISITOR None False (Some 0) (Some 60000000)))"
  "get_allocation_by_id ex_held_db 3 =
     Inr (Some (ex_allocation 3 12 PT_VISITOR None True (Some 120000000) None))"
  "get_allocation_by_id ex_held_db 4 =
     Inr (Some (ex_allocation 4 13 PT_EMPLOYEE (Some ''EMP008'') True None None))"
  by (simp_all add: get_allocation_by_id_def ex_held_db_def ex_allocation_def)

theorem record_exit_writes_no_history_witness:
  "record_entry ex_held_db 1 None 150000000 = (Inl EntryAlreadyRecorded, ex_held_db)
   \<and> record_exit ex_held_db 1 (ex_user 7 EMPLOYEE None) None
       = (Inl (Raised AttributeError), ex_held_db)
   \<and> record_exit ex_held_db 1 (ex_user 7 EMPLOYEE None) (Some 150000000)
       = (Inl (Raised AttributeError), ex_held_db)
   \<and> record_exit ex_held_db 2 (ex_user 1 MANAGER (Some MT_PARKING)) None
       = (Inl ExitAlreadyRecorded, ex_held_db)
   \<and> record_exit ex_held_db 3 (ex_user 7 EMPLOYEE None) None
       = (Inl OnlyAdminVisitorExit, ex_held_db)
   \<and> record_exit ex_held_db 3 (ex_user 1 MANAGER (Some MT_PARKING)) None
       = (Inl (Raised AttributeError), ex_held_db)
   \<and> record_exit ex_held_db 4 (ex_user 8 EMPLOYEE None) None
       = (Inl NoEntryRecorded, ex_held_db)
   \<and> parking_history ex_held_db = []"
proof -
  have u: "\<not> can_manage_parking (ex_user 7 EMPLOYEE None)"
    "can_manage_parking (ex_user 1 MANAGER (Some MT_PARKING))"
    by (simp_all add: can_manage_parking_def ex_user_def)
  have h: "parking_history ex_held_db = []"
    by (simp add: ex_held_db_def ex_parking_db_def empty_db_def)
  show ?thesis
    using u h
      record_exit_writes_no_history [OF get_allocation_ex(1), of None 150000000 "ex_user 7 EMPLOYEE None"]
      record_exit_writes_no_history [OF get_allocation_ex(1), of "Some 150000000" 0 "ex_user 7 EMPLOYEE None"]
      record_exit_writes_no_history [OF get_allocation_ex(2), of None 0 "ex_user 1 MANAGER (Some MT_PARKING)"]
      record_exit_writes_no_history [OF get_allocation_ex(3), of None 0 "ex_user 7 EMPLOYEE None"]
      record_exit_writes_no_history [OF get_allocation_ex(3), of None 0 "ex_user 1 MANAGER (Some MT_PARKING)"]
      record_exit_writes_no_history [OF get_allocation_ex(4), of None 0 "ex_user 8 EMPLOYEE None"]
    by (simp add: ex_allocation_def)
qed

text \<open>
  C2. \<open>create_allocation\<close> answers no request with the conflict error, and grants none:
  it raises \<open>AttributeError\<close> on every request, at \<open>allocation_data.floor_plan_id\<close>, which
  the request schema does not have, and writes nothing. \<open>check_user_active_parking\<close>,
  which would find the allocation an employee holds, raises \<open>AttributeError\<close> for every
  user, because its query names the column \<open>user_id\<close>, which \<open>ParkingAllocation\<close> does not
  have. So the second request of an employee who holds an active allocation creates no
  allocation, as the claim says, but is not refused as a conflict; and a request of an
  employee who holds none is not granted.
\<close>

theorem create_allocation_raises:
  "create_allocation db allocation_data created_by = (Inl (Raised AttributeError), db)
   \<and> fst (create_allocation db allocation_data created_by) \<noteq> Inl UserHasActiveParking
   \<and> check_user_active_parking db uid = Inl (Raised AttributeError)"
  by (simp add: create_allocation_def check_user_active_parking_def)

theorem create_allocation_raises_witness:
  "create_allocation ex_held_db ex_request (ex_user 7 EMPLOYEE None)
     = (Inl (Raised AttributeError), ex_held_db)
   \<and> create_allocation ex_parking_db ex_request (ex_user 7 EMPLOYEE None)
     = (Inl (Raised AttributeError), ex_parking_db)
   \<and> check_user_active_parking ex_held_db 7 = Inl (Raised AttributeError)"
  using create_allocation_raises [of ex_held_db ex_request "ex_user 7 EMPLOYEE None" 7]
    create_allocation_raises [of ex_parking_db ex_request "ex_user 7 EMPLOYEE None" 7]
  by simp


end
